theory Spec2Isabelle
  imports Complex_Main "HOL-Library.Char_ord" "HOL-Library.List_Lexorder"
begin

section \<open>The decorated-text generator of \<^verbatim>\<open>src/App.tsx\<close>\<close>

text \<open>
  The component \<^verbatim>\<open>TextDecoratorApp\<close> keeps its configuration in React state cells,
  draws the text on a preview canvas (\<^verbatim>\<open>drawText\<close>), draws it again on a larger
  canvas for the PNG (\<^verbatim>\<open>downloadImage\<close>), stores and applies presets
  (\<^verbatim>\<open>savePreset\<close>, \<^verbatim>\<open>loadPreset\<close>) and lists the fonts of the machine
  (\<^verbatim>\<open>loadLocalFonts\<close>).

  Conventions of the embedding.
  \<^item> A JavaScript number is a \<^typ>\<open>real\<close>: the finite doubles, without rounding.
    \<^verbatim>\<open>NaN\<close> and the infinities have no counterpart; the one place of the source
    where a finite input produces one (a division by a width of zero) is a branch
    of its own in the model.
  \<^item> A string is a \<^typ>\<open>string\<close>; the functions only store, compare and pass strings on.
  \<^item> \<^verbatim>\<open>undefined\<close> in an optional field is \<^term>\<open>None\<close>.
  \<^item> The state cells of the component are the fields of one record; a setter call
    \<^verbatim>\<open>setX(v)\<close> is the update of field \<^verbatim>\<open>x\<close>.
\<close>

subsection \<open>Types of the source\<close>

datatype colorType = Solid | Gradient

text \<open>
  \<^verbatim>\<open>PresetConfig\<close>. The TypeScript type marks \<^verbatim>\<open>textColorType\<close> and the four border
  fields as required and the others as optional; \<^verbatim>\<open>loadPreset\<close> tests every one of
  the fourteen against \<^verbatim>\<open>undefined\<close>, so each is an option here. The fields carry the
  prefix \<^verbatim>\<open>c_\<close>, after the variable \<^verbatim>\<open>c = preset.config\<close> of \<^verbatim>\<open>loadPreset\<close>.
\<close>

record PresetConfig =
  c_textColor :: "string option"
  c_textColorType :: "colorType option"
  c_textGradientStart :: "string option"
  c_textGradientEnd :: "string option"
  c_textGradientAngle :: "real option"
  c_border1Color :: "string option"
  c_border1Width :: "real option"
  c_border2Color :: "string option"
  c_border2Width :: "real option"
  c_shadowEnabled :: "bool option"
  c_shadowOffsetX :: "real option"
  c_shadowOffsetY :: "real option"
  c_shadowBlur :: "real option"
  c_shadowOpacity :: "real option"

record Preset =
  name :: string
  config :: PresetConfig

record LocalFont =
  family :: string
  fullName :: string
  postscriptName :: string
  style :: string

datatype fontSourceT = FromPreset | FromLocal

text \<open>
  The \<^verbatim>\<open>useState\<close> cells of \<^verbatim>\<open>TextDecoratorApp\<close>, in the order of the source.
  The cell \<^verbatim>\<open>text\<close> is the field \<open>textStr\<close>, \<^verbatim>\<open>text\<close> being a keyword here.
\<close>

record app =
  textStr :: string
  fontSize :: real
  fontFamily :: string
  localFontsAvailable :: bool
  localFonts :: "LocalFont list"
  fontSource :: fontSourceT
  isLoadingFonts :: bool
  textColorType :: colorType
  textColor :: string
  textGradientStart :: string
  textGradientEnd :: string
  textGradientAngle :: real
  border1Color :: string
  border1Width :: real
  border2Color :: string
  border2Width :: real
  shadowEnabled :: bool
  shadowOffsetX :: real
  shadowOffsetY :: real
  shadowBlur :: real
  shadowOpacity :: real
  activeTab :: string
  presets :: "Preset list"

subsection \<open>Presets\<close>

text \<open>
  \<^verbatim>\<open>savePreset\<close>. The argument \<open>answer\<close> is what \<^verbatim>\<open>prompt\<close> returned: \<^term>\<open>None\<close> for
  \<^verbatim>\<open>null\<close> (the dialog was cancelled). \<^verbatim>\<open>!name\<close> holds for \<^verbatim>\<open>null\<close> and for the
  empty string.
\<close>

definition savePreset :: "string option \<Rightarrow> app \<Rightarrow> app" where
  "savePreset answer s =
     (case answer of
        None \<Rightarrow> s
      | Some nm \<Rightarrow>
          if nm = [] then s
          else
            let cfg = \<lparr> c_textColor = Some (textColor s),
                        c_textColorType = Some (textColorType s),
                        c_textGradientStart = Some (textGradientStart s),
                        c_textGradientEnd = Some (textGradientEnd s),
                        c_textGradientAngle = Some (textGradientAngle s),
                        c_border1Color = Some (border1Color s),
                        c_border1Width = Some (border1Width s),
                        c_border2Color = Some (border2Color s),
                        c_border2Width = Some (border2Width s),
                        c_shadowEnabled = Some (shadowEnabled s),
                        c_shadowOffsetX = Some (shadowOffsetX s),
                        c_shadowOffsetY = Some (shadowOffsetY s),
                        c_shadowBlur = Some (shadowBlur s),
                        c_shadowOpacity = Some (shadowOpacity s) \<rparr>
            in s\<lparr>presets := presets s @ [\<lparr> name = nm, config = cfg \<rparr>]\<rparr>)"

text \<open>
  \<^verbatim>\<open>loadPreset\<close>: fourteen guarded setter calls, in the order of the source. The
  helper \<open>whenDefined\<close> is the statement \<^verbatim>\<open>if (v !== undefined) setX(v)\<close>.
\<close>

definition whenDefined :: "'a option \<Rightarrow> ('a \<Rightarrow> app \<Rightarrow> app) \<Rightarrow> app \<Rightarrow> app" where
  "whenDefined v setX s = (case v of None \<Rightarrow> s | Some x \<Rightarrow> setX x s)"

definition loadPreset :: "Preset \<Rightarrow> app \<Rightarrow> app" where
  "loadPreset preset s0 =
     (let c = config preset;
          s1 = whenDefined (c_textColor c) (\<lambda>v s. s\<lparr>textColor := v\<rparr>) s0;
          s2 = whenDefined (c_textColorType c) (\<lambda>v s. s\<lparr>textColorType := v\<rparr>) s1;
          s3 = whenDefined (c_textGradientStart c) (\<lambda>v s. s\<lparr>textGradientStart := v\<rparr>) s2;
          s4 = whenDefined (c_textGradientEnd c) (\<lambda>v s. s\<lparr>textGradientEnd := v\<rparr>) s3;
          s5 = whenDefined (c_textGradientAngle c) (\<lambda>v s. s\<lparr>textGradientAngle := v\<rparr>) s4;
          s6 = whenDefined (c_border1Color c) (\<lambda>v s. s\<lparr>border1Color := v\<rparr>) s5;
          s7 = whenDefined (c_border1Width c) (\<lambda>v s. s\<lparr>border1Width := v\<rparr>) s6;
          s8 = whenDefined (c_border2Color c) (\<lambda>v s. s\<lparr>border2Color := v\<rparr>) s7;
          s9 = whenDefined (c_border2Width c) (\<lambda>v s. s\<lparr>border2Width := v\<rparr>) s8;
          s10 = whenDefined (c_shadowEnabled c) (\<lambda>v s. s\<lparr>shadowEnabled := v\<rparr>) s9;
          s11 = whenDefined (c_shadowOffsetX c) (\<lambda>v s. s\<lparr>shadowOffsetX := v\<rparr>) s10;
          s12 = whenDefined (c_shadowOffsetY c) (\<lambda>v s. s\<lparr>shadowOffsetY := v\<rparr>) s11;
          s13 = whenDefined (c_shadowBlur c) (\<lambda>v s. s\<lparr>shadowBlur := v\<rparr>) s12;
          s14 = whenDefined (c_shadowOpacity c) (\<lambda>v s. s\<lparr>shadowOpacity := v\<rparr>) s13
      in s14)"

subsection \<open>What the host provides\<close>

text \<open>
  Four functions of the browser decide values that the source computes with: the
  width that \<^verbatim>\<open>measureText\<close> reports for a text in a font, whether a string parses
  as a CSS colour (\<^verbatim>\<open>addColorStop\<close> raises a \<^verbatim>\<open>SyntaxError\<close> when it does not), the
  number that \<^verbatim>\<open>String.prototype.localeCompare\<close> returns, and what \<^verbatim>\<open>toBlob\<close> hands
  its callback: the encoded picture, or \<^verbatim>\<open>null\<close>. They are parameters of the model.

  The model follows what the program asks of the canvas: every assignment to an
  attribute of the context is recorded as made, every drawing call is recorded
  with the attributes current at the call. What the browser paints, and which
  assigned values it silently ignores, is beyond it. What changes the course of
  the program itself is modelled: a reference without a canvas, a canvas without
  a context, a call that raises.

  The value of \<^verbatim>\<open>ctx.font\<close> is the template \<^verbatim>\<open>${size}px ${fontFamily}\<close>: a size and the
  family list.
\<close>

record font =
  sizePx :: real
  families :: string

record CanvasGradient =
  g_x0 :: real
  g_y0 :: real
  g_x1 :: real
  g_y1 :: real
  g_stops :: "(real \<times> string) list"

text \<open>
  A value of \<^verbatim>\<open>fillStyle\<close>, \<^verbatim>\<open>strokeStyle\<close> or \<^verbatim>\<open>shadowColor\<close>: a colour string such as
  \<^verbatim>\<open>'black'\<close>, the template \<^verbatim>\<open>rgba(r, g, b, a)\<close> with its four numbers, or a gradient
  object.
\<close>

datatype paint = Color string | Rgba real real real real | LinearGradient CanvasGradient

text \<open>The attributes of the 2D context that the source assigns.\<close>

record ctx2d =
  ctx_font :: font
  ctx_textAlign :: string
  ctx_textBaseline :: string
  ctx_lineJoin :: string
  ctx_miterLimit :: real
  ctx_shadowColor :: paint
  ctx_shadowBlur :: real
  ctx_shadowOffsetX :: real
  ctx_shadowOffsetY :: real
  ctx_fillStyle :: paint
  ctx_strokeStyle :: paint
  ctx_lineWidth :: real

text \<open>
  A drawing call, with the attributes the context had when the call was made.
  A canvas keeps the calls it received, oldest first; \<open>context2d\<close> is what
  \<^verbatim>\<open>getContext('2d')\<close> returns, \<^term>\<open>None\<close> for \<^verbatim>\<open>null\<close>.
\<close>

datatype call =
    ClearRect real real real real
  | FillText ctx2d string real real
  | StrokeText ctx2d string real real

record canvas =
  width :: nat
  height :: nat
  context2d :: "ctx2d option"
  calls :: "call list"

record host =
  measureText :: "font \<Rightarrow> string \<Rightarrow> real"
  parseColor :: "string \<Rightarrow> bool"
  localeCompare :: "string \<Rightarrow> string \<Rightarrow> int"
  toBlob :: "canvas \<Rightarrow> string option"

datatype exn = SyntaxError | IndexSizeError

text \<open>
  How a call of \<^verbatim>\<open>drawText\<close> or \<^verbatim>\<open>downloadImage\<close> ends: it returns, a call into the
  canvas raises, or (\<open>NotFinite\<close>) the scale is a quotient by zero, \<^verbatim>\<open>Infinity\<close> or
  \<^verbatim>\<open>NaN\<close> in the source, where the model stops.
\<close>

datatype outcome = Returned | Raised exn | NotFinite

subsection \<open>Calls into the canvas\<close>

type_synonym drawing = "ctx2d \<times> call list"

definition assign :: "(ctx2d \<Rightarrow> ctx2d) \<Rightarrow> drawing \<Rightarrow> drawing" where
  "assign f d = (f (fst d), snd d)"

definition clearRect :: "real \<Rightarrow> real \<Rightarrow> real \<Rightarrow> real \<Rightarrow> drawing \<Rightarrow> drawing" where
  "clearRect x y w h d = (fst d, snd d @ [ClearRect x y w h])"

definition fillText :: "string \<Rightarrow> real \<Rightarrow> real \<Rightarrow> drawing \<Rightarrow> drawing" where
  "fillText t x y d = (fst d, snd d @ [FillText (fst d) t x y])"

definition strokeText :: "string \<Rightarrow> real \<Rightarrow> real \<Rightarrow> drawing \<Rightarrow> drawing" where
  "strokeText t x y d = (fst d, snd d @ [StrokeText (fst d) t x y])"

definition createLinearGradient :: "real \<Rightarrow> real \<Rightarrow> real \<Rightarrow> real \<Rightarrow> CanvasGradient" where
  "createLinearGradient x0 y0 x1 y1 =
     \<lparr> g_x0 = x0, g_y0 = y0, g_x1 = x1, g_y1 = y1, g_stops = [] \<rparr>"

text \<open>
  \<^verbatim>\<open>addColorStop\<close> raises \<^verbatim>\<open>IndexSizeError\<close> for an offset outside 0..1 and
  \<^verbatim>\<open>SyntaxError\<close> for a string that is not a colour.
\<close>

definition addColorStop :: "host \<Rightarrow> real \<Rightarrow> string \<Rightarrow> CanvasGradient \<Rightarrow> exn + CanvasGradient" where
  "addColorStop h offset color g =
     (if offset < 0 \<or> 1 < offset then Inl IndexSizeError
      else if \<not> parseColor h color then Inl SyntaxError
      else Inr (g\<lparr>g_stops := g_stops g @ [(offset, color)]\<rparr>))"

definition onCanvas :: "canvas \<Rightarrow> drawing \<Rightarrow> canvas" where
  "onCanvas cv d = cv\<lparr>context2d := Some (fst d), calls := snd d\<rparr>"

subsection \<open>Rendering the preview: \<^verbatim>\<open>drawText\<close>\<close>

text \<open>
  The function reads the state cells and draws on \<open>targetCanvas\<close> (by default
  \<^verbatim>\<open>canvasRef.current\<close>). The \<^verbatim>\<open>await\<close> of \<^verbatim>\<open>document.fonts.load\<close> sits in a
  \<^verbatim>\<open>try\<close> whose \<^verbatim>\<open>catch\<close> only logs: the statements after it run either way.
  The result is the canvas after the call and how the call ended.
\<close>

definition drawText :: "host \<Rightarrow> app \<Rightarrow> canvas option \<Rightarrow> canvas option \<times> outcome" where
  "drawText h s targetCanvas =
     (case targetCanvas of
        None \<Rightarrow> (None, Returned)
      | Some cv \<Rightarrow>
         (case context2d cv of
            None \<Rightarrow> (Some cv, Returned)
          | Some ctx \<Rightarrow>
             let d0 = clearRect 0 0 (real (width cv)) (real (height cv)) (ctx, calls cv);
                 d1 = assign (\<lambda>c. c\<lparr>ctx_font := \<lparr>sizePx = fontSize s, families = fontFamily s\<rparr>,
                                       ctx_textAlign := ''center'',
                                       ctx_textBaseline := ''middle'',
                                       ctx_lineJoin := ''round'',
                                       ctx_miterLimit := 2\<rparr>) d0;
                 x = real (width cv) / 2;
                 y = real (height cv) / 2;
                 d2 = (if shadowEnabled s then
                         assign (\<lambda>c. c\<lparr>ctx_shadowColor := Color ''transparent'',
                                         ctx_shadowBlur := 0,
                                         ctx_shadowOffsetX := 0,
                                         ctx_shadowOffsetY := 0\<rparr>)
                           (fillText (textStr s) x y
                              (assign (\<lambda>c. c\<lparr>ctx_shadowColor := Rgba 0 0 0 (shadowOpacity s),
                                              ctx_shadowBlur := shadowBlur s,
                                              ctx_shadowOffsetX := shadowOffsetX s,
                                              ctx_shadowOffsetY := shadowOffsetY s,
                                              ctx_fillStyle := Color ''black''\<rparr>) d1))
                       else d1);
                 d3 = (if border2Width s > 0 then
                         strokeText (textStr s) x y
                           (assign (\<lambda>c. c\<lparr>ctx_strokeStyle := Color (border2Color s),
                                           ctx_lineWidth := border2Width s * 2\<rparr>) d2)
                       else d2);
                 d4 = (if border1Width s > 0 then
                         strokeText (textStr s) x y
                           (assign (\<lambda>c. c\<lparr>ctx_strokeStyle := Color (border1Color s),
                                           ctx_lineWidth := border1Width s * 2\<rparr>) d3)
                       else d3)
             in if textColorType s = Gradient then
                  let metrics = measureText h (ctx_font (fst d4)) (textStr s);
                      textHeight = fontSize s;
                      textWidth = metrics;
                      angleRad = (textGradientAngle s * pi) / 180;
                      x1 = x - (textWidth / 2) * cos angleRad;
                      y1 = y - (textHeight / 2) * sin angleRad;
                      x2 = x + (textWidth / 2) * cos angleRad;
                      y2 = y + (textHeight / 2) * sin angleRad;
                      gradient = createLinearGradient x1 y1 x2 y2
                  in (case addColorStop h 0 (textGradientStart s) gradient of
                        Inl e \<Rightarrow> (Some (onCanvas cv d4), Raised e)
                      | Inr g1 \<Rightarrow>
                         (case addColorStop h 1 (textGradientEnd s) g1 of
                            Inl e \<Rightarrow> (Some (onCanvas cv d4), Raised e)
                          | Inr g2 \<Rightarrow>
                              (Some (onCanvas cv
                                 (fillText (textStr s) x y
                                    (assign (\<lambda>c. c\<lparr>ctx_fillStyle := LinearGradient g2\<rparr>) d4))),
                               Returned)))
                else
                  (Some (onCanvas cv
                     (fillText (textStr s) x y
                        (assign (\<lambda>c. c\<lparr>ctx_fillStyle := Color (textColor s)\<rparr>) d4))),
                   Returned)))"

subsection \<open>Rendering the export: \<^verbatim>\<open>downloadImage\<close>\<close>

text \<open>
  The anchor element that \<^verbatim>\<open>toBlob\<close>'s callback clicks: \<open>a_href\<close> is the picture
  behind the object URL, \<open>a_download\<close> the number \<open>n\<close> of the file name
  \<^verbatim>\<open>decorated-text-n.png\<close>, which is \<^verbatim>\<open>Date.now()\<close>.
\<close>

record anchor =
  a_href :: string
  a_download :: nat

text \<open>
  \<^verbatim>\<open>downloadCanvas.width / canvasRef.current.width\<close>: a quotient of two canvas widths,
  not a finite number when the divisor is 0.
\<close>

definition quotient :: "nat \<Rightarrow> nat \<Rightarrow> real option" where
  "quotient a b = (if b = 0 then None else Some (real a / real b))"

text \<open>
  The arguments after the state are \<^verbatim>\<open>downloadCanvasRef.current\<close>,
  \<^verbatim>\<open>canvasRef.current\<close> and the value of \<^verbatim>\<open>Date.now()\<close>. The result is the export
  canvas after the call, the anchor that was clicked if one was, and how the call
  ended.
\<close>

definition downloadImage ::
    "host \<Rightarrow> app \<Rightarrow> canvas option \<Rightarrow> canvas option \<Rightarrow> nat \<Rightarrow> canvas option \<times> anchor option \<times> outcome" where
  "downloadImage h s downloadCanvasRef canvasRef now =
     (case downloadCanvasRef of
        None \<Rightarrow> (None, None, Returned)
      | Some downloadCanvas \<Rightarrow>
         (case context2d downloadCanvas of
            None \<Rightarrow> (Some downloadCanvas, None, Returned)
          | Some ctx \<Rightarrow>
             (case canvasRef of
                None \<Rightarrow> (Some downloadCanvas, None, Returned)
              | Some preview \<Rightarrow>
                 let d0 = clearRect 0 0 (real (width downloadCanvas)) (real (height downloadCanvas))
                            (ctx, calls downloadCanvas)
                 in (case quotient (width downloadCanvas) (width preview) of
                       None \<Rightarrow> (Some (onCanvas downloadCanvas d0), None, NotFinite)
                     | Some scale \<Rightarrow>
                        let d1 = assign (\<lambda>c. c\<lparr>ctx_font := \<lparr>sizePx = fontSize s * scale,
                                                              families = fontFamily s\<rparr>,
                                                  ctx_textAlign := ''center'',
                                                  ctx_textBaseline := ''middle'',
                                                  ctx_lineJoin := ''round'',
                                                  ctx_miterLimit := 2\<rparr>) d0;
                            x = real (width downloadCanvas) / 2;
                            y = real (height downloadCanvas) / 2;
                            d2 = (if shadowEnabled s then
                                    assign (\<lambda>c. c\<lparr>ctx_shadowColor := Color ''transparent'',
                                                    ctx_shadowBlur := 0,
                                                    ctx_shadowOffsetX := 0,
                                                    ctx_shadowOffsetY := 0\<rparr>)
                                      (fillText (textStr s) x y
                                         (assign (\<lambda>c. c\<lparr>ctx_shadowColor := Rgba 0 0 0 (shadowOpacity s),
                                                         ctx_shadowBlur := shadowBlur s * scale,
                                                         ctx_shadowOffsetX := shadowOffsetX s * scale,
                                                         ctx_shadowOffsetY := shadowOffsetY s * scale,
                                                         ctx_fillStyle := Color ''black''\<rparr>) d1))
                                  else d1);
                            d3 = (if border2Width s > 0 then
                                    strokeText (textStr s) x y
                                      (assign (\<lambda>c. c\<lparr>ctx_strokeStyle := Color (border2Color s),
                                                      ctx_lineWidth := border2Width s * 2 * scale\<rparr>) d2)
                                  else d2);
                            d4 = (if border1Width s > 0 then
                                    strokeText (textStr s) x y
                                      (assign (\<lambda>c. c\<lparr>ctx_strokeStyle := Color (border1Color s),
                                                      ctx_lineWidth := border1Width s * 2 * scale\<rparr>) d3)
                                  else d3);
                            finish = (\<lambda>d. let cv = onCanvas downloadCanvas d
                                           in (Some cv,
                                               (case toBlob h cv of
                                                  None \<Rightarrow> None
                                                | Some blob \<Rightarrow> Some \<lparr>a_href = blob, a_download = now\<rparr>),
                                               Returned))
                        in if textColorType s = Gradient then
                             let metrics = measureText h (ctx_font (fst d4)) (textStr s);
                                 textHeight = fontSize s * scale;
                                 textWidth = metrics;
                                 angleRad = (textGradientAngle s * pi) / 180;
                                 x1 = x - (textWidth / 2) * cos angleRad;
                                 y1 = y - (textHeight / 2) * sin angleRad;
                                 x2 = x + (textWidth / 2) * cos angleRad;
                                 y2 = y + (textHeight / 2) * sin angleRad;
                                 gradient = createLinearGradient x1 y1 x2 y2
                             in (case addColorStop h 0 (textGradientStart s) gradient of
                                   Inl e \<Rightarrow> (Some (onCanvas downloadCanvas d4), None, Raised e)
                                 | Inr g1 \<Rightarrow>
                                    (case addColorStop h 1 (textGradientEnd s) g1 of
                                       Inl e \<Rightarrow> (Some (onCanvas downloadCanvas d4), None, Raised e)
                                     | Inr g2 \<Rightarrow>
                                         finish (fillText (textStr s) x y
                                           (assign (\<lambda>c. c\<lparr>ctx_fillStyle := LinearGradient g2\<rparr>) d4))))
                           else
                             finish (fillText (textStr s) x y
                               (assign (\<lambda>c. c\<lparr>ctx_fillStyle := Color (textColor s)\<rparr>) d4))))))"

subsection \<open>The fonts of the machine: \<^verbatim>\<open>loadLocalFonts\<close>\<close>

text \<open>
  A JavaScript \<^verbatim>\<open>Map\<close> keeps its entries in the order in which their keys were first
  set. \<^verbatim>\<open>set\<close> on a key that is present leaves the entry where it is and replaces
  its value; \<^verbatim>\<open>new Map(entries)\<close> sets the entries one after the other, from an
  empty map; \<^verbatim>\<open>values()\<close> lists the values in the order of the entries.
\<close>

fun mapSet :: "'k \<Rightarrow> 'v \<Rightarrow> ('k \<times> 'v) list \<Rightarrow> ('k \<times> 'v) list" where
  "mapSet k v [] = [(k, v)]"
| "mapSet k v (e # m) = (if fst e = k then (k, v) # m else e # mapSet k v m)"

definition newMap :: "('k \<times> 'v) list \<Rightarrow> ('k \<times> 'v) list" where
  "newMap entries = foldl (\<lambda>m e. mapSet (fst e) (snd e) m) [] entries"

definition mapValues :: "('k \<times> 'v) list \<Rightarrow> 'v list" where
  "mapValues m = map snd m"

text \<open>
  \<^verbatim>\<open>Array.prototype.sort\<close> with a comparator: \<open>a\<close> goes before \<open>b\<close> when the
  comparator returns a negative number, and elements that compare as 0 keep their
  order (the sort is stable). For a consistent comparator that fixes the result,
  whatever the algorithm of the engine; the model inserts each element, from the
  last to the first, before the first element it does not exceed.
\<close>

fun insertBy :: "('a \<Rightarrow> 'a \<Rightarrow> int) \<Rightarrow> 'a \<Rightarrow> 'a list \<Rightarrow> 'a list" where
  "insertBy cmp a [] = [a]"
| "insertBy cmp a (b # bs) = (if cmp a b \<le> 0 then a # b # bs else b # insertBy cmp a bs)"

definition arraySort :: "('a \<Rightarrow> 'a \<Rightarrow> int) \<Rightarrow> 'a list \<Rightarrow> 'a list" where
  "arraySort cmp xs = foldr (insertBy cmp) xs []"

text \<open>The constant \<^verbatim>\<open>uniqueFonts\<close> of \<^verbatim>\<open>loadLocalFonts\<close>, from what the host enumerated.\<close>

definition uniqueFonts :: "host \<Rightarrow> LocalFont list \<Rightarrow> LocalFont list" where
  "uniqueFonts h availableFonts =
     arraySort (\<lambda>a b. localeCompare h (family a) (family b))
       (mapValues (newMap
          (map (\<lambda>font. (family font,
                         \<lparr> family = family font,
                           fullName = fullName font,
                           postscriptName = postscriptName font,
                           style = style font \<rparr>))
               availableFonts)))"

text \<open>The three messages of the \<^verbatim>\<open>catch\<close> block, by the name of the error.\<close>

datatype alertMessage = AccessFailed | Restricted | PermissionDenied

text \<open>
  \<open>inWindow\<close> is the test \<^verbatim>\<open>'queryLocalFonts' in window\<close>; \<open>answer\<close> is what the
  awaited \<^verbatim>\<open>window.queryLocalFonts()\<close> gave: the fonts, or the name of the error it
  was rejected with. The result is the state after the \<^verbatim>\<open>finally\<close> block and the
  message shown by \<^verbatim>\<open>alert\<close>, if any.
\<close>

definition loadLocalFonts ::
    "host \<Rightarrow> bool \<Rightarrow> string + LocalFont list \<Rightarrow> app \<Rightarrow> app \<times> alertMessage option" where
  "loadLocalFonts h inWindow answer s =
     (if \<not> inWindow then (s, None)
      else
        let s1 = s\<lparr>isLoadingFonts := True\<rparr>
        in (case answer of
              Inr availableFonts \<Rightarrow>
                let fonts = uniqueFonts h availableFonts;
                    s2 = s1\<lparr>localFonts := fonts\<rparr>;
                    s3 = s2\<lparr>fontSource := FromLocal\<rparr>;
                    s4 = (case fonts of [] \<Rightarrow> s3 | f # _ \<Rightarrow> s3\<lparr>fontFamily := family f\<rparr>)
                in (s4\<lparr>isLoadingFonts := False\<rparr>, None)
            | Inl errorName \<Rightarrow>
                let errorMessage =
                      (if errorName = ''SecurityError'' then Restricted
                       else if errorName = ''NotAllowedError'' then PermissionDenied
                       else AccessFailed);
                    s2 = s1\<lparr>fontSource := FromPreset\<rparr>
                in (s2\<lparr>isLoadingFonts := False\<rparr>, Some errorMessage)))"

subsection \<open>Reading a render\<close>

text \<open>
  The calls a render added to a canvas: those of the canvas after the render, past
  the ones it had before.
\<close>

definition newCalls :: "canvas \<Rightarrow> canvas option \<Rightarrow> call list" where
  "newCalls before after =
     (case after of None \<Rightarrow> [] | Some cv \<Rightarrow> drop (length (calls before)) (calls cv))"

text \<open>A drawing call as a pass: what it does and the paint it does it with.\<close>

datatype pass = Clear | Fill paint | Stroke paint

fun passOf :: "call \<Rightarrow> pass" where
  "passOf (ClearRect x y w h) = Clear"
| "passOf (FillText c t x y) = Fill (ctx_fillStyle c)"
| "passOf (StrokeText c t x y) = Stroke (ctx_strokeStyle c)"


text \<open>The line widths of the stroke calls of a list of calls, in order.\<close>

fun strokeWidths :: "call list \<Rightarrow> real list" where
  "strokeWidths [] = []"
| "strokeWidths (StrokeText c t x y # ks) = ctx_lineWidth c # strokeWidths ks"
| "strokeWidths (k # ks) = strokeWidths ks"

text \<open>The gradient a fill call paints with, if it paints with one.\<close>

fun gradientOf :: "call \<Rightarrow> CanvasGradient option" where
  "gradientOf (FillText c t x y) =
     (case ctx_fillStyle c of LinearGradient g \<Rightarrow> Some g | _ \<Rightarrow> None)"
| "gradientOf _ = None"



text \<open>The shadow effect is off: the four values the source resets it to.\<close>

definition shadowOff :: "ctx2d \<Rightarrow> bool" where
  "shadowOff c =
     (ctx_shadowColor c = Color ''transparent'' \<and> ctx_shadowBlur c = 0
      \<and> ctx_shadowOffsetX c = 0 \<and> ctx_shadowOffsetY c = 0)"


text \<open>Whether \<^verbatim>\<open>addColorStop\<close> accepts both stops of the configuration.\<close>

definition stopsParse :: "host \<Rightarrow> app \<Rightarrow> bool" where
  "stopsParse h s = (parseColor h (textGradientStart s) \<and> parseColor h (textGradientEnd s))"

text \<open>
  A surface the export can use: the reference holds a canvas and the canvas gives
  a 2D context.
\<close>

definition surfaceValid :: "canvas option \<Rightarrow> bool" where
  "surfaceValid r =
     (case r of None \<Rightarrow> False
      | Some cv \<Rightarrow> (case context2d cv of None \<Rightarrow> False | Some c \<Rightarrow> True))"


text \<open>
  The anchor that the callback of \<^verbatim>\<open>toBlob\<close> clicks for a canvas: none when there is
  no canvas or the browser hands the callback \<^verbatim>\<open>null\<close>.
\<close>

definition clicked :: "host \<Rightarrow> nat \<Rightarrow> canvas option \<Rightarrow> anchor option" where
  "clicked h now r =
     (case r of
        None \<Rightarrow> None
      | Some cv \<Rightarrow>
         (case toBlob h cv of
            None \<Rightarrow> None
          | Some blob \<Rightarrow> Some \<lparr>a_href = blob, a_download = now\<rparr>))"

subsection \<open>The same operations, in the words of the specification\<close>

text \<open>
  Removing duplicates with the first occurrence winning: a font is kept when no
  earlier font of the enumeration has its family.
\<close>

fun dedupFirst :: "string list \<Rightarrow> LocalFont list \<Rightarrow> LocalFont list" where
  "dedupFirst seen [] = []"
| "dedupFirst seen (f # fs) =
     (if family f \<in> set seen then dedupFirst seen fs
      else f # dedupFirst (family f # seen) fs)"

text \<open>
  The render with the inner stroke pass left out: \<^verbatim>\<open>drawText\<close> as above, without the
  statement \<^verbatim>\<open>if (border1Width > 0) { ... }\<close>.
\<close>

definition drawTextNoInner :: "host \<Rightarrow> app \<Rightarrow> canvas option \<Rightarrow> canvas option \<times> outcome" where
  "drawTextNoInner h s targetCanvas =
     (case targetCanvas of
        None \<Rightarrow> (None, Returned)
      | Some cv \<Rightarrow>
         (case context2d cv of
            None \<Rightarrow> (Some cv, Returned)
          | Some ctx \<Rightarrow>
             let d0 = clearRect 0 0 (real (width cv)) (real (height cv)) (ctx, calls cv);
                 d1 = assign (\<lambda>c. c\<lparr>ctx_font := \<lparr>sizePx = fontSize s, families = fontFamily s\<rparr>,
                                       ctx_textAlign := ''center'',
                                       ctx_textBaseline := ''middle'',
                                       ctx_lineJoin := ''round'',
                                       ctx_miterLimit := 2\<rparr>) d0;
                 x = real (width cv) / 2;
                 y = real (height cv) / 2;
                 d2 = (if shadowEnabled s then
                         assign (\<lambda>c. c\<lparr>ctx_shadowColor := Color ''transparent'',
                                         ctx_shadowBlur := 0,
                                         ctx_shadowOffsetX := 0,
                                         ctx_shadowOffsetY := 0\<rparr>)
                           (fillText (textStr s) x y
                              (assign (\<lambda>c. c\<lparr>ctx_shadowColor := Rgba 0 0 0 (shadowOpacity s),
                                              ctx_shadowBlur := shadowBlur s,
                                              ctx_shadowOffsetX := shadowOffsetX s,
                                              ctx_shadowOffsetY := shadowOffsetY s,
                                              ctx_fillStyle := Color ''black''\<rparr>) d1))
                       else d1);
                 d3 = (if border2Width s > 0 then
                         strokeText (textStr s) x y
                           (assign (\<lambda>c. c\<lparr>ctx_strokeStyle := Color (border2Color s),
                                           ctx_lineWidth := border2Width s * 2\<rparr>) d2)
                       else d2)
             in if textColorType s = Gradient then
                  let metrics = measureText h (ctx_font (fst d3)) (textStr s);
                      textHeight = fontSize s;
                      textWidth = metrics;
                      angleRad = (textGradientAngle s * pi) / 180;
                      x1 = x - (textWidth / 2) * cos angleRad;
                      y1 = y - (textHeight / 2) * sin angleRad;
                      x2 = x + (textWidth / 2) * cos angleRad;
                      y2 = y + (textHeight / 2) * sin angleRad;
                      gradient = createLinearGradient x1 y1 x2 y2
                  in (case addColorStop h 0 (textGradientStart s) gradient of
                        Inl e \<Rightarrow> (Some (onCanvas cv d3), Raised e)
                      | Inr g1 \<Rightarrow>
                         (case addColorStop h 1 (textGradientEnd s) g1 of
                            Inl e \<Rightarrow> (Some (onCanvas cv d3), Raised e)
                          | Inr g2 \<Rightarrow>
                              (Some (onCanvas cv
                                 (fillText (textStr s) x y
                                    (assign (\<lambda>c. c\<lparr>ctx_fillStyle := LinearGradient g2\<rparr>) d3))),
                               Returned)))
                else
                  (Some (onCanvas cv
                     (fillText (textStr s) x y
                        (assign (\<lambda>c. c\<lparr>ctx_fillStyle := Color (textColor s)\<rparr>) d3))),
                   Returned)))"

text \<open>
  The gradient of the specification, for a scale and an anchor: \<open>W\<close> is the width
  of the text measured at the scaled font size, \<open>H\<close> the scaled font size, the axis
  runs from the anchor minus \<open>(W/2 cos \<theta>, H/2 sin \<theta>)\<close> to the anchor plus it, and the
  stops are the start colour at 0 and the end colour at 1.
\<close>

definition gradientAxis :: "host \<Rightarrow> app \<Rightarrow> real \<Rightarrow> real \<Rightarrow> real \<Rightarrow> CanvasGradient" where
  "gradientAxis h s scale ax ay =
     (let \<theta> = textGradientAngle s * pi / 180;
          W = measureText h \<lparr>sizePx = fontSize s * scale, families = fontFamily s\<rparr> (textStr s);
          H = fontSize s * scale
      in \<lparr> g_x0 = ax - (W / 2) * cos \<theta>, g_y0 = ay - (H / 2) * sin \<theta>,
           g_x1 = ax + (W / 2) * cos \<theta>, g_y1 = ay + (H / 2) * sin \<theta>,
           g_stops = [(0, textGradientStart s), (1, textGradientEnd s)] \<rparr>)"

text \<open>
  The renderer of the specification, \<open>render(surface, config, scale)\<close>, pass by
  pass: text shaping, the shadow pass, a stroke pass (used for the outer and then
  the inner outline, thickness \<open>widthPx * scale * 2\<close>), the fill pass. The fill pass
  needs its paint; building the gradient is where the canvas can refuse a colour.
\<close>

definition shapeText :: "app \<Rightarrow> real \<Rightarrow> drawing \<Rightarrow> drawing" where
  "shapeText s scale d =
     assign (\<lambda>c. c\<lparr>ctx_font := \<lparr>sizePx = fontSize s * scale, families = fontFamily s\<rparr>,
                    ctx_textAlign := ''center'', ctx_textBaseline := ''middle'',
                    ctx_lineJoin := ''round'', ctx_miterLimit := 2\<rparr>) d"

definition shadowPass :: "app \<Rightarrow> real \<Rightarrow> real \<Rightarrow> real \<Rightarrow> drawing \<Rightarrow> drawing" where
  "shadowPass s scale x y d =
     (if shadowEnabled s then
        assign (\<lambda>c. c\<lparr>ctx_shadowColor := Color ''transparent'', ctx_shadowBlur := 0,
                       ctx_shadowOffsetX := 0, ctx_shadowOffsetY := 0\<rparr>)
          (fillText (textStr s) x y
             (assign (\<lambda>c. c\<lparr>ctx_shadowColor := Rgba 0 0 0 (shadowOpacity s),
                            ctx_shadowBlur := shadowBlur s * scale,
                            ctx_shadowOffsetX := shadowOffsetX s * scale,
                            ctx_shadowOffsetY := shadowOffsetY s * scale,
                            ctx_fillStyle := Color ''black''\<rparr>) d))
      else d)"

definition strokePass ::
    "string \<Rightarrow> real \<Rightarrow> real \<Rightarrow> string \<Rightarrow> real \<Rightarrow> real \<Rightarrow> drawing \<Rightarrow> drawing" where
  "strokePass color widthPx scale t x y d =
     (if widthPx > 0 then
        strokeText t x y
          (assign (\<lambda>c. c\<lparr>ctx_strokeStyle := Color color, ctx_lineWidth := widthPx * scale * 2\<rparr>) d)
      else d)"

definition fillPaint :: "host \<Rightarrow> app \<Rightarrow> real \<Rightarrow> real \<Rightarrow> real \<Rightarrow> exn + paint" where
  "fillPaint h s scale x y =
     (if textColorType s = Gradient then
        (if stopsParse h s then Inr (LinearGradient (gradientAxis h s scale x y))
         else Inl SyntaxError)
      else Inr (Color (textColor s)))"

definition fillPass :: "host \<Rightarrow> app \<Rightarrow> real \<Rightarrow> real \<Rightarrow> real \<Rightarrow> drawing \<Rightarrow> drawing \<times> outcome" where
  "fillPass h s scale x y d =
     (case fillPaint h s scale x y of
        Inl e \<Rightarrow> (d, Raised e)
      | Inr p \<Rightarrow> (fillText (textStr s) x y (assign (\<lambda>c. c\<lparr>ctx_fillStyle := p\<rparr>) d), Returned))"

definition render :: "host \<Rightarrow> app \<Rightarrow> real \<Rightarrow> canvas \<Rightarrow> ctx2d \<Rightarrow> drawing \<times> outcome" where
  "render h s scale cv ctx =
     (let x = real (width cv) / 2; y = real (height cv) / 2
      in fillPass h s scale x y
           (strokePass (border1Color s) (border1Width s) scale (textStr s) x y
              (strokePass (border2Color s) (border2Width s) scale (textStr s) x y
                 (shadowPass s scale x y
                    (shapeText s scale
                       (clearRect 0 0 (real (width cv)) (real (height cv)) (ctx, calls cv)))))))"

text \<open>
  The passes of a render in their fixed order, each with its paint: clearing,
  the shadow pass if the shadow is enabled, the outer stroke if its width is
  positive, the inner stroke if its width is positive, the fill. The fill is
  missing in one case: the gradient could not be built.
\<close>

definition passOrder :: "host \<Rightarrow> app \<Rightarrow> real \<Rightarrow> canvas \<Rightarrow> pass list" where
  "passOrder h s scale cv =
     [Clear]
     @ (if shadowEnabled s then [Fill (Color ''black'')] else [])
     @ (if border2Width s > 0 then [Stroke (Color (border2Color s))] else [])
     @ (if border1Width s > 0 then [Stroke (Color (border1Color s))] else [])
     @ (if textColorType s = Gradient then
          (if stopsParse h s
           then [Fill (LinearGradient
                   (gradientAxis h s scale (real (width cv) / 2) (real (height cv) / 2)))]
           else [])
        else [Fill (Color (textColor s))])"

subsection \<open>Concrete inputs\<close>

text \<open>
  A host to evaluate the model with. It takes as colours the strings a colour
  picker produces, \<^verbatim>\<open>#\<close> and six hexadecimal digits (a browser takes more, and like
  this one refuses the empty string); a text is half its font size wide per
  character; strings compare in the order of their characters; every canvas
  encodes to the same picture.
\<close>

definition hexDigit :: "char \<Rightarrow> bool" where
  "hexDigit c = (c \<in> set ''0123456789abcdefABCDEF'')"

definition hexColor :: "string \<Rightarrow> bool" where
  "hexColor str =
     (case str of [] \<Rightarrow> False | c # ds \<Rightarrow> c = CHR ''#'' \<and> length ds = 6 \<and> list_all hexDigit ds)"

definition charOrder :: "string \<Rightarrow> string \<Rightarrow> int" where
  "charOrder a b = (if a < b then - 1 else if a = b then 0 else 1)"

definition sampleHost :: host where
  "sampleHost =
     \<lparr> measureText = (\<lambda>f t. sizePx f * real (length t) / 2),
       parseColor = hexColor,
       localeCompare = charOrder,
       toBlob = (\<lambda>cv. Some ''PNG'') \<rparr>"

text \<open>
  The initial values of the state cells, with an ASCII text and no presets (the
  text and the preset names of the source are Japanese).
\<close>

definition sampleApp :: app where
  "sampleApp =
     \<lparr> textStr = ''Hello'', fontSize = 120, fontFamily = ''Arial'',
       localFontsAvailable = False, localFonts = [], fontSource = FromPreset,
       isLoadingFonts = False,
       textColorType = Solid, textColor = ''#FF0000'',
       textGradientStart = ''#FF0000'', textGradientEnd = ''#FF6600'',
       textGradientAngle = 90,
       border1Color = ''#FFFFFF'', border1Width = 8,
       border2Color = ''#000000'', border2Width = 18,
       shadowEnabled = True, shadowOffsetX = 8, shadowOffsetY = 8,
       shadowBlur = 10, shadowOpacity = 6 / 10,
       activeTab = ''text'', presets = [] \<rparr>"

text \<open>A context as the browser creates it, and the two canvases of the page.\<close>

definition freshContext :: ctx2d where
  "freshContext =
     \<lparr> ctx_font = \<lparr>sizePx = 10, families = ''sans-serif''\<rparr>,
       ctx_textAlign = ''start'', ctx_textBaseline = ''alphabetic'',
       ctx_lineJoin = ''miter'', ctx_miterLimit = 10,
       ctx_shadowColor = Rgba 0 0 0 0, ctx_shadowBlur = 0,
       ctx_shadowOffsetX = 0, ctx_shadowOffsetY = 0,
       ctx_fillStyle = Color ''#000000'', ctx_strokeStyle = Color ''#000000'',
       ctx_lineWidth = 1 \<rparr>"

definition previewCanvas :: canvas where
  "previewCanvas = \<lparr> width = 800, height = 450, context2d = Some freshContext, calls = [] \<rparr>"

definition exportCanvas :: canvas where
  "exportCanvas = \<lparr> width = 1920, height = 1080, context2d = Some freshContext, calls = [] \<rparr>"

definition emptyConfig :: PresetConfig where
  "emptyConfig =
     \<lparr> c_textColor = None, c_textColorType = None, c_textGradientStart = None,
       c_textGradientEnd = None, c_textGradientAngle = None,
       c_border1Color = None, c_border1Width = None,
       c_border2Color = None, c_border2Width = None,
       c_shadowEnabled = None, c_shadowOffsetX = None, c_shadowOffsetY = None,
       c_shadowBlur = None, c_shadowOpacity = None \<rparr>"

text \<open>Three fonts as the host may enumerate them, two of one family.\<close>

definition arialRegular :: LocalFont where
  "arialRegular = \<lparr> family = ''Arial'', fullName = ''Arial'',
                     postscriptName = ''ArialMT'', style = ''Regular'' \<rparr>"

definition arialBold :: LocalFont where
  "arialBold = \<lparr> family = ''Arial'', fullName = ''Arial Bold'',
                  postscriptName = ''Arial-BoldMT'', style = ''Bold'' \<rparr>"

definition impact :: LocalFont where
  "impact = \<lparr> family = ''Impact'', fullName = ''Impact'',
               postscriptName = ''Impact'', style = ''Regular'' \<rparr>"

section \<open>Properties\<close>

subsection \<open>Presets\<close>

text \<open>One guarded setter call, as one update of the record.\<close>

lemma whenDefined_field:
    "whenDefined v0 (\<lambda>v s. s\<lparr>textColor := v\<rparr>) s =
       s\<lparr>textColor := (case v0 of None \<Rightarrow> textColor s | Some x \<Rightarrow> x)\<rparr>"
    "whenDefined v1 (\<lambda>v s. s\<lparr>textColorType := v\<rparr>) s =
       s\<lparr>textColorType := (case v1 of None \<Rightarrow> textColorType s | Some x \<Rightarrow> x)\<rparr>"
    "whenDefined v2 (\<lambda>v s. s\<lparr>textGradientStart := v\<rparr>) s =
       s\<lparr>textGradientStart := (case v2 of None \<Rightarrow> textGradientStart s | Some x \<Rightarrow> x)\<rparr>"
    "whenDefined v3 (\<lambda>v s. s\<lparr>textGradientEnd := v\<rparr>) s =
       s\<lparr>textGradientEnd := (case v3 of None \<Rightarrow> textGradientEnd s | Some x \<Rightarrow> x)\<rparr>"
    "whenDefined v4 (\<lambda>v s. s\<lparr>textGradientAngle := v\<rparr>) s =
       s\<lparr>textGradientAngle := (case v4 of None \<Rightarrow> textGradientAngle s | Some x \<Rightarrow> x)\<rparr>"
    "whenDefined v5 (\<lambda>v s. s\<lparr>border1Color := v\<rparr>) s =
       s\<lparr>border1Color := (case v5 of None \<Rightarrow> border1Color s | Some x \<Rightarrow> x)\<rparr>"
    "whenDefined v6 (\<lambda>v s. s\<lparr>border1Width := v\<rparr>) s =
       s\<lparr>border1Width := (case v6 of None \<Rightarrow> border1Width s | Some x \<Rightarrow> x)\<rparr>"
    "whenDefined v7 (\<lambda>v s. s\<lparr>border2Color := v\<rparr>) s =
       s\<lparr>border2Color := (case v7 of None \<Rightarrow> border2Color s | Some x \<Rightarrow> x)\<rparr>"
    "whenDefined v8 (\<lambda>v s. s\<lparr>border2Width := v\<rparr>) s =
       s\<lparr>border2Width := (case v8 of None \<Rightarrow> border2Width s | Some x \<Rightarrow> x)\<rparr>"
    "whenDefined v9 (\<lambda>v s. s\<lparr>shadowEnabled := v\<rparr>) s =
       s\<lparr>shadowEnabled := (case v9 of None \<Rightarrow> shadowEnabled s | Some x \<Rightarrow> x)\<rparr>"
    "whenDefined v10 (\<lambda>v s. s\<lparr>shadowOffsetX := v\<rparr>) s =
       s\<lparr>shadowOffsetX := (case v10 of None \<Rightarrow> shadowOffsetX s | Some x \<Rightarrow> x)\<rparr>"
    "whenDefined v11 (\<lambda>v s. s\<lparr>shadowOffsetY := v\<rparr>) s =
       s\<lparr>shadowOffsetY := (case v11 of None \<Rightarrow> shadowOffsetY s | Some x \<Rightarrow> x)\<rparr>"
    "whenDefined v12 (\<lambda>v s. s\<lparr>shadowBlur := v\<rparr>) s =
       s\<lparr>shadowBlur := (case v12 of None \<Rightarrow> shadowBlur s | Some x \<Rightarrow> x)\<rparr>"
    "whenDefined v13 (\<lambda>v s. s\<lparr>shadowOpacity := v\<rparr>) s =
       s\<lparr>shadowOpacity := (case v13 of None \<Rightarrow> shadowOpacity s | Some x \<Rightarrow> x)\<rparr>"
  by (simp_all add: whenDefined_def split: option.split)

lemma loadPreset_eq:
  "loadPreset p s =
     s\<lparr> textColor := (case c_textColor (config p) of None \<Rightarrow> textColor s | Some v \<Rightarrow> v),
          textColorType := (case c_textColorType (config p) of None \<Rightarrow> textColorType s | Some v \<Rightarrow> v),
          textGradientStart := (case c_textGradientStart (config p) of None \<Rightarrow> textGradientStart s | Some v \<Rightarrow> v),
          textGradientEnd := (case c_textGradientEnd (config p) of None \<Rightarrow> textGradientEnd s | Some v \<Rightarrow> v),
          textGradientAngle := (case c_textGradientAngle (config p) of None \<Rightarrow> textGradientAngle s | Some v \<Rightarrow> v),
          border1Color := (case c_border1Color (config p) of None \<Rightarrow> border1Color s | Some v \<Rightarrow> v),
          border1Width := (case c_border1Width (config p) of None \<Rightarrow> border1Width s | Some v \<Rightarrow> v),
          border2Color := (case c_border2Color (config p) of None \<Rightarrow> border2Color s | Some v \<Rightarrow> v),
          border2Width := (case c_border2Width (config p) of None \<Rightarrow> border2Width s | Some v \<Rightarrow> v),
          shadowEnabled := (case c_shadowEnabled (config p) of None \<Rightarrow> shadowEnabled s | Some v \<Rightarrow> v),
          shadowOffsetX := (case c_shadowOffsetX (config p) of None \<Rightarrow> shadowOffsetX s | Some v \<Rightarrow> v),
          shadowOffsetY := (case c_shadowOffsetY (config p) of None \<Rightarrow> shadowOffsetY s | Some v \<Rightarrow> v),
          shadowBlur := (case c_shadowBlur (config p) of None \<Rightarrow> shadowBlur s | Some v \<Rightarrow> v),
          shadowOpacity := (case c_shadowOpacity (config p) of None \<Rightarrow> shadowOpacity s | Some v \<Rightarrow> v) \<rparr>"
  by (simp add: loadPreset_def Let_def whenDefined_field cong: option.case_cong)

text \<open>
  C5. Loading a preset replaces exactly the state cells for which the preset's
  configuration defines a value and leaves every other cell as it was: the state
  after \<^verbatim>\<open>loadPreset\<close> is the state before, with each of the fourteen cells set to
  the preset's value where there is one. With the text \<^verbatim>\<open>Hello\<close> and a preset that
  defines only \<^verbatim>\<open>border1Color = #000000\<close> and \<^verbatim>\<open>border1Width = 5\<close>, the text is still
  \<^verbatim>\<open>Hello\<close> afterwards and the inner outline is black, 5 wide.
\<close>

theorem loadPreset_partial_merge:
  "loadPreset p s =
     s\<lparr> textColor := (case c_textColor (config p) of None \<Rightarrow> textColor s | Some v \<Rightarrow> v),
          textColorType := (case c_textColorType (config p) of None \<Rightarrow> textColorType s | Some v \<Rightarrow> v),
          textGradientStart := (case c_textGradientStart (config p) of None \<Rightarrow> textGradientStart s | Some v \<Rightarrow> v),
          textGradientEnd := (case c_textGradientEnd (config p) of None \<Rightarrow> textGradientEnd s | Some v \<Rightarrow> v),
          textGradientAngle := (case c_textGradientAngle (config p) of None \<Rightarrow> textGradientAngle s | Some v \<Rightarrow> v),
          border1Color := (case c_border1Color (config p) of None \<Rightarrow> border1Color s | Some v \<Rightarrow> v),
          border1Width := (case c_border1Width (config p) of None \<Rightarrow> border1Width s | Some v \<Rightarrow> v),
          border2Color := (case c_border2Color (config p) of None \<Rightarrow> border2Color s | Some v \<Rightarrow> v),
          border2Width := (case c_border2Width (config p) of None \<Rightarrow> border2Width s | Some v \<Rightarrow> v),
          shadowEnabled := (case c_shadowEnabled (config p) of None \<Rightarrow> shadowEnabled s | Some v \<Rightarrow> v),
          shadowOffsetX := (case c_shadowOffsetX (config p) of None \<Rightarrow> shadowOffsetX s | Some v \<Rightarrow> v),
          shadowOffsetY := (case c_shadowOffsetY (config p) of None \<Rightarrow> shadowOffsetY s | Some v \<Rightarrow> v),
          shadowBlur := (case c_shadowBlur (config p) of None \<Rightarrow> shadowBlur s | Some v \<Rightarrow> v),
          shadowOpacity := (case c_shadowOpacity (config p) of None \<Rightarrow> shadowOpacity s | Some v \<Rightarrow> v) \<rparr>
   \<and> textStr (loadPreset
         \<lparr>name = n, config = emptyConfig\<lparr>c_border1Color := Some ''#000000'', c_border1Width := Some 5\<rparr>\<rparr>
         (s\<lparr>textStr := ''Hello''\<rparr>)) = ''Hello''
   \<and> border1Color (loadPreset
         \<lparr>name = n, config = emptyConfig\<lparr>c_border1Color := Some ''#000000'', c_border1Width := Some 5\<rparr>\<rparr>
         (s\<lparr>textStr := ''Hello''\<rparr>)) = ''#000000''
   \<and> border1Width (loadPreset
         \<lparr>name = n, config = emptyConfig\<lparr>c_border1Color := Some ''#000000'', c_border1Width := Some 5\<rparr>\<rparr>
         (s\<lparr>textStr := ''Hello''\<rparr>)) = 5"
proof -
  have scenario: "textStr (loadPreset q (s\<lparr>textStr := ''Hello''\<rparr>)) = ''Hello''
      \<and> border1Color (loadPreset q (s\<lparr>textStr := ''Hello''\<rparr>)) = ''#000000''
      \<and> border1Width (loadPreset q (s\<lparr>textStr := ''Hello''\<rparr>)) = 5"
    if "q = \<lparr>name = n, config = emptyConfig\<lparr>c_border1Color := Some ''#000000'', c_border1Width := Some 5\<rparr>\<rparr>"
    for q
    using that by (simp add: loadPreset_eq emptyConfig_def)
  from loadPreset_eq [of p s] scenario [OF refl] show ?thesis
    by (intro conjI) (assumption | simp)+
qed

lemma loadPreset_frame:
  "textStr (loadPreset p s) = textStr s \<and> fontSize (loadPreset p s) = fontSize s
   \<and> fontFamily (loadPreset p s) = fontFamily s"
  by (simp add: loadPreset_eq)

text \<open>
  C10. A preset created by \<^verbatim>\<open>savePreset\<close> (the one it appends to the list) leaves
  the text, the font size and the font family of any state it is loaded into
  unchanged; and the preset is the same whatever the text, the font size and the
  font family were when it was saved: the save does not capture them, the load
  does not write them.
\<close>

theorem saved_preset_keeps_text_and_font:
  assumes "presets (savePreset (Some nm) s0) = presets s0 @ [p]"
  shows "textStr (loadPreset p s) = textStr s
       \<and> fontSize (loadPreset p s) = fontSize s
       \<and> fontFamily (loadPreset p s) = fontFamily s
       \<and> presets (savePreset (Some nm) (s0\<lparr>textStr := t, fontSize := z, fontFamily := f\<rparr>))
           = presets s0 @ [p]"
  using assms by (auto simp add: loadPreset_frame savePreset_def Let_def split: if_splits)

theorem saved_preset_keeps_text_and_font_witness:
  "presets (savePreset (Some ''Mine'') sampleApp)
     = presets sampleApp @ [last (presets (savePreset (Some ''Mine'') sampleApp))]
   \<and> textStr (loadPreset (last (presets (savePreset (Some ''Mine'') sampleApp)))
        (sampleApp\<lparr>textStr := ''Other'', fontSize := 40, fontFamily := ''Impact''\<rparr>)) = ''Other''
   \<and> fontSize (loadPreset (last (presets (savePreset (Some ''Mine'') sampleApp)))
        (sampleApp\<lparr>textStr := ''Other'', fontSize := 40, fontFamily := ''Impact''\<rparr>)) = 40
   \<and> fontFamily (loadPreset (last (presets (savePreset (Some ''Mine'') sampleApp)))
        (sampleApp\<lparr>textStr := ''Other'', fontSize := 40, fontFamily := ''Impact''\<rparr>)) = ''Impact''"
proof -
  have saved: "presets (savePreset (Some ''Mine'') sampleApp)
     = presets sampleApp @ [last (presets (savePreset (Some ''Mine'') sampleApp))]"
    by (simp add: savePreset_def sampleApp_def)
  from saved_preset_keeps_text_and_font [OF saved,
      of "sampleApp\<lparr>textStr := ''Other'', fontSize := 40, fontFamily := ''Impact''\<rparr>"]
  show ?thesis using saved by simp
qed

subsection \<open>Fonts\<close>

lemma mapSet_keys:
  "map fst (mapSet k v m) = (if k \<in> fst ` set m then map fst m else map fst m @ [k])"
  by (induction m) auto

lemma map_of_mapSet: "map_of (mapSet k v m) = (map_of m)(k \<mapsto> v)"
  by (induction m) (auto simp: fun_eq_iff)

lemma distinct_mapSet: "distinct (map fst m) \<Longrightarrow> distinct (map fst (mapSet k v m))"
  by (simp add: mapSet_keys)

lemma foldl_mapSet_distinct:
  "distinct (map fst m) \<Longrightarrow> distinct (map fst (foldl (\<lambda>m e. mapSet (fst e) (snd e) m) m es))"
  by (induction es arbitrary: m) (simp_all add: distinct_mapSet)

lemma foldl_mapSet_keys:
  "fst ` set (foldl (\<lambda>m e. mapSet (fst e) (snd e) m) m es) = fst ` set m \<union> fst ` set es"
proof (induction es arbitrary: m)
  case Nil
  then show ?case by simp
next
  case (Cons e es)
  have "fst ` set (mapSet (fst e) (snd e) m) = insert (fst e) (fst ` set m)"
  proof -
    have "fst ` set (mapSet (fst e) (snd e) m) = set (map fst (mapSet (fst e) (snd e) m))" by simp
    also have "\<dots> = insert (fst e) (fst ` set m)"
      by (simp only: mapSet_keys) auto
    finally show ?thesis .
  qed
  with Cons.IH [of "mapSet (fst e) (snd e) m"] show ?case by auto
qed

lemma foldl_mapSet_map_of:
  "map_of (foldl (\<lambda>m e. mapSet (fst e) (snd e) m) m es) = map_of m ++ map_of (rev es)"
proof (induction es arbitrary: m)
  case Nil
  then show ?case by simp
next
  case (Cons e es)
  have "map_of (rev es @ [e]) = [fst e \<mapsto> snd e] ++ map_of (rev es)"
    by (cases e) (simp add: map_add_def fun_eq_iff split: option.split)
  then show ?case
    by (simp add: Cons.IH map_of_mapSet map_add_def fun_eq_iff split: option.split)
qed

lemma newMap_distinct: "distinct (map fst (newMap es))"
  by (simp add: newMap_def foldl_mapSet_distinct)

lemma newMap_keys: "fst ` set (newMap es) = fst ` set es"
  by (simp add: newMap_def foldl_mapSet_keys)

lemma newMap_map_of: "map_of (newMap es) = map_of (rev es)"
  by (simp add: newMap_def foldl_mapSet_map_of)

lemma map_of_rev_keyed:
  "map_of (rev (map (\<lambda>g. (key g, g)) fs)) k = Some f \<Longrightarrow>
     key f = k \<and> f = last (filter (\<lambda>g. key g = k) fs)"
  by (induction fs rule: rev_induct) (auto split: if_splits)

lemma set_insertBy: "set (insertBy cmp a bs) = insert a (set bs)"
  by (induction bs) auto

lemma set_arraySort: "set (arraySort cmp xs) = set xs"
  by (induction xs) (simp_all add: arraySort_def set_insertBy)

lemma distinct_map_insertBy:
  "distinct (map f (insertBy cmp a bs)) \<longleftrightarrow> f a \<notin> f ` set bs \<and> distinct (map f bs)"
  by (induction bs) (auto simp: set_insertBy)

lemma distinct_map_arraySort:
  "distinct (map f (arraySort cmp xs)) \<longleftrightarrow> distinct (map f xs)"
  by (induction xs) (simp_all add: arraySort_def distinct_map_insertBy set_insertBy set_arraySort [unfolded arraySort_def])

lemma sorted_insertBy:
  assumes total: "\<forall>a b. cmp a b \<le> 0 \<or> cmp b a \<le> 0"
      and trans: "\<forall>a b c. cmp a b \<le> 0 \<longrightarrow> cmp b c \<le> 0 \<longrightarrow> cmp a c \<le> 0"
      and sorted: "sorted_wrt (\<lambda>a b. cmp a b \<le> (0::int)) bs"
  shows "sorted_wrt (\<lambda>a b. cmp a b \<le> 0) (insertBy cmp a bs)"
  using sorted
proof (induction bs)
  case Nil
  then show ?case by simp
next
  case (Cons b bs)
  show ?case
  proof (cases "cmp a b \<le> 0")
    case True
    have "\<forall>c\<in>set bs. cmp a c \<le> 0"
      using True Cons.prems trans by (metis sorted_wrt.simps(2))
    with True Cons.prems show ?thesis by simp
  next
    case False
    with total have "cmp b a \<le> 0" by blast
    with False Cons show ?thesis by (simp add: set_insertBy)
  qed
qed

lemma sorted_arraySort:
  assumes total: "\<forall>a b. cmp a b \<le> 0 \<or> cmp b a \<le> 0"
      and trans: "\<forall>a b c. cmp a b \<le> 0 \<longrightarrow> cmp b c \<le> 0 \<longrightarrow> cmp a c \<le> 0"
  shows "sorted_wrt (\<lambda>a b. cmp a b \<le> (0::int)) (arraySort cmp xs)"
proof (induction xs)
  case Nil
  then show ?case by (simp add: arraySort_def)
next
  case (Cons x xs)
  from sorted_insertBy [OF total trans Cons.IH, of x]
  show ?case by (simp add: arraySort_def)
qed

lemma LocalFont_rebuild:
  "\<lparr> family = family font, fullName = fullName font,
     postscriptName = postscriptName font, style = style font \<rparr> = font"
  by (cases font) simp

lemma uniqueFonts_eq:
  "uniqueFonts h fs = arraySort (\<lambda>a b. localeCompare h (family a) (family b))
       (mapValues (newMap (map (\<lambda>font. (family font, font)) fs)))"
  by (simp add: uniqueFonts_def LocalFont_rebuild)

lemma newMap_keyed_values:
  assumes "(k, f) \<in> set (newMap (map (\<lambda>g. (key g, g)) fs))"
  shows "key f = k \<and> f = last (filter (\<lambda>g. key g = k) fs)"
proof -
  have "map_of (newMap (map (\<lambda>g. (key g, g)) fs)) k = Some f"
    by (rule map_of_is_SomeI [OF newMap_distinct assms])
  then have "map_of (rev (map (\<lambda>g. (key g, g)) fs)) k = Some f"
    by (simp only: newMap_map_of)
  then show ?thesis by (rule map_of_rev_keyed)
qed

lemma newMap_keyed_map_fst:
  "map fst (newMap (map (\<lambda>g. (key g, g)) fs))
     = map key (mapValues (newMap (map (\<lambda>g. (key g, g)) fs)))"
proof -
  have "fst e = key (snd e)" if "e \<in> set (newMap (map (\<lambda>g. (key g, g)) fs))" for e
  proof -
    from that have "(fst e, snd e) \<in> set (newMap (map (\<lambda>g. (key g, g)) fs))" by simp
    from newMap_keyed_values [OF this] have "key (snd e) = fst e" by (rule conjunct1)
    then show ?thesis by (rule sym)
  qed
  then show ?thesis by (simp add: mapValues_def cong: map_cong)
qed

lemma loadLocalFonts_offers:
  "localFonts (fst (loadLocalFonts h True (Inr fs) s)) = uniqueFonts h fs"
  by (simp add: loadLocalFonts_def Let_def split: list.split)

text \<open>
  C4, as the code has it. For a comparison that is total and transitive, the fonts
  that \<^verbatim>\<open>loadLocalFonts\<close> stores for the font menu are \<^verbatim>\<open>uniqueFonts\<close>; they have
  one entry per family name of the enumeration, each entry is the
  last font of the enumeration with its family, and the list is in the order of the
  comparison.
\<close>

theorem uniqueFonts_last_wins_sorted:
  assumes total: "\<And>a b. localeCompare h a b \<le> 0 \<or> localeCompare h b a \<le> 0"
      and trans: "\<And>a b c. localeCompare h a b \<le> 0 \<Longrightarrow> localeCompare h b c \<le> 0 \<Longrightarrow> localeCompare h a c \<le> 0"
  shows "localFonts (fst (loadLocalFonts h True (Inr fs) s)) = uniqueFonts h fs
       \<and> distinct (map family (uniqueFonts h fs))
       \<and> set (map family (uniqueFonts h fs)) = set (map family fs)
       \<and> list_all (\<lambda>f. f = last (filter (\<lambda>g. family g = family f) fs)) (uniqueFonts h fs)
       \<and> sorted_wrt (\<lambda>a b. localeCompare h (family a) (family b) \<le> 0) (uniqueFonts h fs)"
proof -
  let ?m = "newMap (map (\<lambda>g. (family g, g)) fs)"
  let ?cmp = "\<lambda>a b. localeCompare h (family a) (family b)"
  have keys: "map family (mapValues ?m) = map fst ?m"
    by (simp add: newMap_keyed_map_fst)
  have dist: "distinct (map family (uniqueFonts h fs))"
    by (simp add: uniqueFonts_eq distinct_map_arraySort keys newMap_distinct)
  have fams: "set (map family (uniqueFonts h fs)) = set (map family fs)"
  proof -
    have "set (map family (uniqueFonts h fs)) = family ` set (mapValues ?m)"
      by (simp add: uniqueFonts_eq set_arraySort)
    also have "\<dots> = set (map family (mapValues ?m))" by simp
    also have "\<dots> = fst ` set ?m" by (simp only: keys set_map)
    also have "\<dots> = set (map family fs)" by (simp add: newMap_keys image_image)
    finally show ?thesis .
  qed
  have lasts: "list_all (\<lambda>f. f = last (filter (\<lambda>g. family g = family f) fs)) (uniqueFonts h fs)"
    unfolding list_all_iff uniqueFonts_eq set_arraySort mapValues_def
    using newMap_keyed_values [of _ _ family fs] by auto
  have ordered: "sorted_wrt (\<lambda>a b. ?cmp a b \<le> 0) (uniqueFonts h fs)"
    unfolding uniqueFonts_eq
  proof (rule sorted_arraySort)
    show "\<forall>a b. ?cmp a b \<le> 0 \<or> ?cmp b a \<le> 0" using total by blast
    show "\<forall>a b c. ?cmp a b \<le> 0 \<longrightarrow> ?cmp b c \<le> 0 \<longrightarrow> ?cmp a c \<le> 0" using trans by blast
  qed
  from loadLocalFonts_offers [of h fs s] dist fams lasts ordered show ?thesis by blast
qed

lemma charOrder_total: "charOrder a b \<le> 0 \<or> charOrder b a \<le> 0"
  by (simp add: charOrder_def)

lemma charOrder_trans: "charOrder a b \<le> 0 \<Longrightarrow> charOrder b c \<le> 0 \<Longrightarrow> charOrder a c \<le> 0"
  by (auto simp add: charOrder_def split: if_splits)

theorem uniqueFonts_last_wins_sorted_witness:
  "localFonts (fst (loadLocalFonts sampleHost True (Inr [impact, arialRegular, arialBold]) sampleApp))
     = uniqueFonts sampleHost [impact, arialRegular, arialBold]
   \<and> distinct (map family (uniqueFonts sampleHost [impact, arialRegular, arialBold]))
   \<and> set (map family (uniqueFonts sampleHost [impact, arialRegular, arialBold]))
       = set (map family [impact, arialRegular, arialBold])
   \<and> list_all (\<lambda>f. f = last (filter (\<lambda>g. family g = family f) [impact, arialRegular, arialBold]))
        (uniqueFonts sampleHost [impact, arialRegular, arialBold])
   \<and> sorted_wrt (\<lambda>a b. localeCompare sampleHost (family a) (family b) \<le> 0)
        (uniqueFonts sampleHost [impact, arialRegular, arialBold])"
proof -
  have total: "localeCompare sampleHost a b \<le> 0 \<or> localeCompare sampleHost b a \<le> 0" for a b
    using charOrder_total [of a b] by (simp add: sampleHost_def)
  have trans: "localeCompare sampleHost a c \<le> 0"
    if "localeCompare sampleHost a b \<le> 0" and "localeCompare sampleHost b c \<le> 0" for a b c
    using charOrder_trans [of a b c] that by (simp add: sampleHost_def)
  show ?thesis
    by (rule uniqueFonts_last_wins_sorted [of sampleHost]) (rule total, rule trans)
qed

text \<open>
  C4, as the claim states it, fails: of two fonts of the family Arial the second
  is kept, where the first occurrence winning would keep the first.
\<close>

theorem first_occurrence_does_not_win:
  "localFonts (fst (loadLocalFonts sampleHost True (Inr [impact, arialRegular, arialBold]) sampleApp))
     = [arialBold, impact]
   \<and> arraySort (\<lambda>a b. localeCompare sampleHost (family a) (family b))
        (dedupFirst [] [impact, arialRegular, arialBold]) = [arialRegular, impact]
   \<and> arialBold \<noteq> arialRegular"
  by (simp add: loadLocalFonts_offers uniqueFonts_def sampleHost_def impact_def arialRegular_def
        arialBold_def newMap_def mapValues_def arraySort_def charOrder_def)

subsection \<open>The two renders and the renderer of the specification\<close>

lemmas canvas_defs = assign_def clearRect_def fillText_def strokeText_def onCanvas_def
  createLinearGradient_def addColorStop_def

lemmas render_defs = render_def fillPass_def fillPaint_def strokePass_def shadowPass_def
  shapeText_def gradientAxis_def stopsParse_def

lemma drawText_render:
  assumes "context2d cv = Some ctx"
  shows "drawText h s (Some cv) =
           (Some (onCanvas cv (fst (render h s 1 cv ctx))), snd (render h s 1 cv ctx))"
  using assms
  by (cases "textColorType s = Gradient"; cases "parseColor h (textGradientStart s)";
      cases "parseColor h (textGradientEnd s)")
     (simp_all add: drawText_def render_defs canvas_defs Let_def if_distrib [of fst] if_distrib [of ctx_font]
        split del: if_split cong: if_cong)

lemma downloadImage_render:
  assumes "context2d dc = Some ctx" and "width pv \<noteq> 0"
  shows "downloadImage h s (Some dc) (Some pv) now =
           (let r = render h s (real (width dc) / real (width pv)) dc ctx;
                cv = onCanvas dc (fst r)
            in (Some cv,
                (if snd r = Returned
                 then (case toBlob h cv of None \<Rightarrow> None
                       | Some blob \<Rightarrow> Some \<lparr>a_href = blob, a_download = now\<rparr>)
                 else None),
                snd r))"
  using assms
  by (cases "textColorType s = Gradient"; cases "parseColor h (textGradientStart s)";
      cases "parseColor h (textGradientEnd s)")
     (simp_all add: downloadImage_def quotient_def render_defs canvas_defs Let_def mult_ac
        if_distrib [of fst] if_distrib [of ctx_font] split del: if_split cong: if_cong)


lemma strokeWidths_append: "strokeWidths (ks @ ks') = strokeWidths ks @ strokeWidths ks'"
  by (induction ks rule: strokeWidths.induct) simp_all

lemma clearRect_snd: "snd (clearRect x y w h d) = snd d @ [ClearRect x y w h]"
  by (simp add: clearRect_def)

lemma shapeText_snd: "snd (shapeText s k d) = snd d"
  by (simp add: shapeText_def assign_def)

lemma shadowPass_snd:
  "snd (shadowPass s k x y d) =
     snd d @ (if shadowEnabled s
              then [FillText ((fst d)\<lparr>ctx_shadowColor := Rgba 0 0 0 (shadowOpacity s),
                                      ctx_shadowBlur := shadowBlur s * k,
                                      ctx_shadowOffsetX := shadowOffsetX s * k,
                                      ctx_shadowOffsetY := shadowOffsetY s * k,
                                      ctx_fillStyle := Color ''black''\<rparr>) (textStr s) x y]
              else [])"
  by (simp add: shadowPass_def assign_def fillText_def)


lemma strokePass_snd:
  "snd (strokePass color w k t x y d) =
     snd d @ (if 0 < w
              then [StrokeText ((fst d)\<lparr>ctx_strokeStyle := Color color,
                                        ctx_lineWidth := w * k * 2\<rparr>) t x y]
              else [])"
  by (simp add: strokePass_def assign_def strokeText_def)


lemma fillPass_snd:
  "snd (fst (fillPass h s k x y d)) =
     snd d @ (case fillPaint h s k x y of
                Inl e \<Rightarrow> []
              | Inr p \<Rightarrow> [FillText ((fst d)\<lparr>ctx_fillStyle := p\<rparr>) (textStr s) x y])"
  by (simp add: fillPass_def assign_def fillText_def split: sum.split)


lemma fillPass_outcome:
  "snd (fillPass h s k x y d) =
     (case fillPaint h s k x y of Inl e \<Rightarrow> Raised e | Inr p \<Rightarrow> Returned)"
  by (simp add: fillPass_def split: sum.split)

lemmas pass_calls = fillPass_snd strokePass_snd shadowPass_snd shapeText_snd clearRect_snd

lemma newCalls_onCanvas:
  "snd d = calls cv @ ks \<Longrightarrow> newCalls cv (Some (onCanvas cv d)) = ks"
  by (simp add: newCalls_def onCanvas_def)

lemma render_passes:
  "\<exists>ks. snd (fst (render h s k cv ctx)) = calls cv @ ks \<and> map passOf ks = passOrder h s k cv"
  by (simp add: render_def Let_def pass_calls passOrder_def fillPaint_def)

lemma render_strokeWidths:
  "\<exists>ks. snd (fst (render h s k cv ctx)) = calls cv @ ks
     \<and> strokeWidths ks =
         (if 0 < border2Width s then [border2Width s * k * 2] else [])
         @ (if 0 < border1Width s then [border1Width s * k * 2] else [])"
  by (simp add: render_def Let_def pass_calls strokeWidths_append split: sum.split)

lemma render_outcome:
  "snd (render h s k cv ctx) =
     (if textColorType s = Gradient then (if stopsParse h s then Returned else Raised SyntaxError)
      else Returned)"
  by (simp add: render_def Let_def fillPass_outcome fillPaint_def)


lemma shadowOff_update [simp]:
  "shadowOff (c\<lparr>ctx_strokeStyle := a, ctx_lineWidth := b\<rparr>) = shadowOff c"
  "shadowOff (c\<lparr>ctx_fillStyle := p\<rparr>) = shadowOff c"
  by (simp_all add: shadowOff_def)


lemma render_fill:
  assumes "fillPaint h s k (real (width cv) / 2) (real (height cv) / 2) = Inr p"
  shows "\<exists>c ks. snd (fst (render h s k cv ctx)) =
            calls cv @ ks @ [FillText c (textStr s) (real (width cv) / 2) (real (height cv) / 2)]
          \<and> ctx_fillStyle c = p"
proof -
  define x where "x = real (width cv) / 2"
  define y where "y = real (height cv) / 2"
  define D4 where "D4 =
     strokePass (border1Color s) (border1Width s) k (textStr s) x y
       (strokePass (border2Color s) (border2Width s) k (textStr s) x y
          (shadowPass s k x y
             (shapeText s k (clearRect 0 0 (real (width cv)) (real (height cv)) (ctx, calls cv)))))"
  have "snd (fst (render h s k cv ctx)) =
          snd D4 @ [FillText ((fst D4)\<lparr>ctx_fillStyle := p\<rparr>) (textStr s) x y]"
    using assms by (simp add: render_def Let_def fillPass_snd D4_def x_def y_def)
  moreover have "\<exists>ks. snd D4 = calls cv @ ks"
    by (simp add: D4_def pass_calls)
  ultimately show ?thesis unfolding x_def y_def by force
qed

lemma drawText_newCalls:
  assumes "context2d cv = Some ctx" and "snd (fst (render h s 1 cv ctx)) = calls cv @ ks"
  shows "newCalls cv (fst (drawText h s (Some cv))) = ks"
  using assms by (simp add: drawText_render newCalls_onCanvas)

lemma downloadImage_newCalls:
  assumes "context2d dc = Some ctx" and "0 < width pv"
    and "snd (fst (render h s (real (width dc) / real (width pv)) dc ctx)) = calls dc @ ks"
  shows "newCalls dc (fst (downloadImage h s (Some dc) (Some pv) now)) = ks"
  using assms by (simp add: downloadImage_render Let_def newCalls_onCanvas)

lemma drawText_passes:
  assumes "context2d cv = Some ctx"
  shows "map passOf (newCalls cv (fst (drawText h s (Some cv)))) = passOrder h s 1 cv"
proof -
  obtain ks where "snd (fst (render h s 1 cv ctx)) = calls cv @ ks"
      and "map passOf ks = passOrder h s 1 cv"
    using render_passes by blast
  with assms show ?thesis by (simp add: drawText_newCalls)
qed

lemma downloadImage_passes:
  assumes "context2d dc = Some ctx" and "0 < width pv"
  shows "map passOf (newCalls dc (fst (downloadImage h s (Some dc) (Some pv) now)))
           = passOrder h s (real (width dc) / real (width pv)) dc"
proof -
  obtain ks where "snd (fst (render h s (real (width dc) / real (width pv)) dc ctx)) = calls dc @ ks"
      and "map passOf ks = passOrder h s (real (width dc) / real (width pv)) dc"
    using render_passes by blast
  with assms show ?thesis by (simp add: downloadImage_newCalls)
qed

lemma drawText_outcome:
  assumes "context2d cv = Some ctx"
  shows "snd (drawText h s (Some cv)) =
     (if textColorType s = Gradient then (if stopsParse h s then Returned else Raised SyntaxError)
      else Returned)"
  using assms by (simp add: drawText_render render_outcome)

lemma downloadImage_outcome:
  assumes "context2d dc = Some ctx" and "0 < width pv"
  shows "snd (snd (downloadImage h s (Some dc) (Some pv) now)) =
     (if textColorType s = Gradient then (if stopsParse h s then Returned else Raised SyntaxError)
      else Returned)"
  using assms by (simp add: downloadImage_render render_outcome Let_def)

lemma downloadImage_anchor:
  assumes "context2d dc = Some ctx" and "0 < width pv"
  shows "fst (snd (downloadImage h s (Some dc) (Some pv) now)) =
     (if textColorType s = Gradient then
        (if stopsParse h s then clicked h now (fst (downloadImage h s (Some dc) (Some pv) now))
         else None)
      else clicked h now (fst (downloadImage h s (Some dc) (Some pv) now)))"
  using assms by (simp add: downloadImage_render render_outcome Let_def clicked_def)

text \<open>
  C1, as the code has it. On a canvas with a 2D context, and for the export with
  a preview canvas that is not 0 wide, the passes of the preview render and of
  the export render are those of \<open>passOrder\<close>: clearing, then the shadow pass if
  the shadow is enabled, then the outer stroke if its width is positive, then the
  inner stroke if its width is positive, then the fill. With a solid fill, or a
  gradient whose two stop colours the canvas accepts, the fill runs, it is the
  last pass, and the render returns; the export then clicks the anchor if
  \<^verbatim>\<open>toBlob\<close> yields a picture. With a gradient of which a stop colour is refused, the fill does not
  run, the render ends with the \<^verbatim>\<open>SyntaxError\<close>, and the export clicks no anchor.
\<close>

theorem render_pass_order:
  assumes "context2d cv = Some ctx" and "context2d dc = Some dctx" and "0 < width pv"
  shows "map passOf (newCalls cv (fst (drawText h s (Some cv)))) = passOrder h s 1 cv
       \<and> map passOf (newCalls dc (fst (downloadImage h s (Some dc) (Some pv) now)))
           = passOrder h s (real (width dc) / real (width pv)) dc
       \<and> snd (drawText h s (Some cv)) =
           (if textColorType s = Gradient
            then (if stopsParse h s then Returned else Raised SyntaxError)
            else Returned)
       \<and> snd (snd (downloadImage h s (Some dc) (Some pv) now)) =
           (if textColorType s = Gradient
            then (if stopsParse h s then Returned else Raised SyntaxError)
            else Returned)
       \<and> fst (snd (downloadImage h s (Some dc) (Some pv) now)) =
           (if textColorType s = Gradient then
              (if stopsParse h s then clicked h now (fst (downloadImage h s (Some dc) (Some pv) now))
               else None)
            else clicked h now (fst (downloadImage h s (Some dc) (Some pv) now)))"
proof (intro conjI)
  show "map passOf (newCalls cv (fst (drawText h s (Some cv)))) = passOrder h s 1 cv"
    using assms(1) by (rule drawText_passes)
next
  show "map passOf (newCalls dc (fst (downloadImage h s (Some dc) (Some pv) now)))
           = passOrder h s (real (width dc) / real (width pv)) dc"
    using assms(2,3) by (rule downloadImage_passes)
next
  show "snd (drawText h s (Some cv)) =
           (if textColorType s = Gradient
            then (if stopsParse h s then Returned else Raised SyntaxError)
            else Returned)"
    using assms(1) by (rule drawText_outcome)
next
  show "snd (snd (downloadImage h s (Some dc) (Some pv) now)) =
           (if textColorType s = Gradient
            then (if stopsParse h s then Returned else Raised SyntaxError)
            else Returned)"
    using assms(2,3) by (rule downloadImage_outcome)
next
  show "fst (snd (downloadImage h s (Some dc) (Some pv) now)) =
           (if textColorType s = Gradient then
              (if stopsParse h s then clicked h now (fst (downloadImage h s (Some dc) (Some pv) now))
               else None)
            else clicked h now (fst (downloadImage h s (Some dc) (Some pv) now)))"
    using assms(2,3) by (rule downloadImage_anchor)
qed

theorem render_pass_order_witness:
  "map passOf (newCalls previewCanvas (fst (drawText sampleHost sampleApp (Some previewCanvas))))
     = [Clear, Fill (Color ''black''), Stroke (Color ''#000000''), Stroke (Color ''#FFFFFF''),
        Fill (Color ''#FF0000'')]
   \<and> map passOf (newCalls exportCanvas
        (fst (downloadImage sampleHost sampleApp (Some exportCanvas) (Some previewCanvas) 0)))
     = [Clear, Fill (Color ''black''), Stroke (Color ''#000000''), Stroke (Color ''#FFFFFF''),
        Fill (Color ''#FF0000'')]
   \<and> snd (drawText sampleHost sampleApp (Some previewCanvas)) = Returned
   \<and> snd (snd (downloadImage sampleHost sampleApp (Some exportCanvas) (Some previewCanvas) 0))
     = Returned
   \<and> fst (snd (downloadImage sampleHost sampleApp (Some exportCanvas) (Some previewCanvas) 0))
     = Some \<lparr>a_href = ''PNG'', a_download = 0\<rparr>"
proof -
  have "context2d previewCanvas = Some freshContext" "context2d exportCanvas = Some freshContext"
       "0 < width previewCanvas"
    by (simp_all add: previewCanvas_def exportCanvas_def)
  note facts = render_pass_order [OF this, of sampleHost sampleApp 0]
  have solid: "textColorType sampleApp = Solid" by (simp add: sampleApp_def)
  have shot: "clicked sampleHost 0
      (fst (downloadImage sampleHost sampleApp (Some exportCanvas) (Some previewCanvas) 0))
      = Some \<lparr>a_href = ''PNG'', a_download = 0\<rparr>"
    by (simp add: clicked_def sampleHost_def
          downloadImage_render [OF \<open>context2d exportCanvas = Some freshContext\<close>]
          \<open>0 < width previewCanvas\<close> Let_def)
  from facts show ?thesis
    by (simp add: solid shot) (simp add: passOrder_def sampleApp_def)
qed

lemma previewCanvas_context: "context2d previewCanvas = Some freshContext"
  by (simp add: previewCanvas_def)

lemma exportCanvas_context: "context2d exportCanvas = Some freshContext"
  by (simp add: exportCanvas_def)

text \<open>
  C1, as the claim states it, fails: with a gradient fill whose start colour is
  the empty string, \<^verbatim>\<open>addColorStop\<close> raises and the last pass is the inner stroke.
\<close>

theorem fill_pass_not_reached:
  "map passOf (newCalls previewCanvas
      (fst (drawText sampleHost (sampleApp\<lparr>textColorType := Gradient, textGradientStart := []\<rparr>)
              (Some previewCanvas))))
     = [Clear, Fill (Color ''black''), Stroke (Color ''#000000''), Stroke (Color ''#FFFFFF'')]
   \<and> snd (drawText sampleHost (sampleApp\<lparr>textColorType := Gradient, textGradientStart := []\<rparr>)
              (Some previewCanvas)) = Raised SyntaxError"
  by (simp add: drawText_passes [OF previewCanvas_context] drawText_outcome [OF previewCanvas_context]
        passOrder_def stopsParse_def sampleHost_def hexColor_def sampleApp_def)

subsection \<open>Stroke widths\<close>

lemma drawText_strokeWidths:
  assumes "context2d cv = Some ctx"
  shows "strokeWidths (newCalls cv (fst (drawText h s (Some cv)))) =
           (if 0 < border2Width s then [border2Width s * 1 * 2] else [])
           @ (if 0 < border1Width s then [border1Width s * 1 * 2] else [])"
proof -
  obtain ks where "snd (fst (render h s 1 cv ctx)) = calls cv @ ks"
      and "strokeWidths ks =
           (if 0 < border2Width s then [border2Width s * 1 * 2] else [])
           @ (if 0 < border1Width s then [border1Width s * 1 * 2] else [])"
    using render_strokeWidths by blast
  with assms show ?thesis by (simp only: drawText_newCalls)
qed

lemma downloadImage_strokeWidths:
  assumes "context2d dc = Some ctx" and "0 < width pv"
  shows "strokeWidths (newCalls dc (fst (downloadImage h s (Some dc) (Some pv) now))) =
           (if 0 < border2Width s then [border2Width s * (real (width dc) / real (width pv)) * 2] else [])
           @ (if 0 < border1Width s then [border1Width s * (real (width dc) / real (width pv)) * 2] else [])"
proof -
  obtain ks where "snd (fst (render h s (real (width dc) / real (width pv)) dc ctx)) = calls dc @ ks"
      and "strokeWidths ks =
           (if 0 < border2Width s then [border2Width s * (real (width dc) / real (width pv)) * 2] else [])
           @ (if 0 < border1Width s then [border1Width s * (real (width dc) / real (width pv)) * 2] else [])"
    using render_strokeWidths by blast
  with assms show ?thesis by (simp only: downloadImage_newCalls)
qed

text \<open>
  C2. Every stroke pass that runs sets the line width to the configured width
  times the scale times 2: the line widths of the stroke calls of an export are
  those of the outer and the inner outline, each where its width is positive,
  times the quotient of the two canvas widths times 2, and those of a preview the
  same at scale 1. For the export canvas, 1920 wide, and the preview canvas, 800
  wide, the scale is 2.4 = 24/10, and an outer outline of width 10 (with no inner
  outline) is stroked with line width 48.
\<close>

theorem stroke_line_width:
  assumes "context2d cv = Some ctx" and "context2d dc = Some dctx" and "0 < width pv"
  shows "strokeWidths (newCalls dc (fst (downloadImage h s (Some dc) (Some pv) now))) =
           (if 0 < border2Width s then [border2Width s * (real (width dc) / real (width pv)) * 2] else [])
           @ (if 0 < border1Width s then [border1Width s * (real (width dc) / real (width pv)) * 2] else [])
       \<and> strokeWidths (newCalls cv (fst (drawText h s (Some cv)))) =
           (if 0 < border2Width s then [border2Width s * 1 * 2] else [])
           @ (if 0 < border1Width s then [border1Width s * 1 * 2] else [])
       \<and> quotient (width exportCanvas) (width previewCanvas) = Some (24 / 10)
       \<and> strokeWidths (newCalls exportCanvas
            (fst (downloadImage h (s\<lparr>border2Width := 10, border1Width := 0\<rparr>)
                    (Some exportCanvas) (Some previewCanvas) now))) = [48]"
proof -
  have w: "0 < width previewCanvas" by (simp add: previewCanvas_def)
  have q: "quotient (width exportCanvas) (width previewCanvas) = Some (24 / 10)"
    by (simp add: quotient_def exportCanvas_def previewCanvas_def)
  have e: "strokeWidths (newCalls exportCanvas
            (fst (downloadImage h (s\<lparr>border2Width := 10, border1Width := 0\<rparr>)
                    (Some exportCanvas) (Some previewCanvas) now))) = [48]"
    by (simp add: downloadImage_strokeWidths [OF exportCanvas_context w])
       (simp add: exportCanvas_def previewCanvas_def)
  from assms show ?thesis
    by (simp only: drawText_strokeWidths downloadImage_strokeWidths q e simp_thms)
qed

theorem stroke_line_width_witness:
  "strokeWidths (newCalls exportCanvas
      (fst (downloadImage sampleHost (sampleApp\<lparr>border2Width := 10\<rparr>) (Some exportCanvas) (Some previewCanvas) 0)))
     = [48, 192 / 5]
   \<and> strokeWidths (newCalls previewCanvas
      (fst (drawText sampleHost (sampleApp\<lparr>border2Width := 10\<rparr>) (Some previewCanvas))))
     = [20, 16]"
proof -
  have w: "0 < width previewCanvas" by (simp add: previewCanvas_def)
  from stroke_line_width [OF previewCanvas_context exportCanvas_context w,
      of sampleHost "sampleApp\<lparr>border2Width := 10\<rparr>" 0]
  show ?thesis by (simp add: sampleApp_def exportCanvas_def previewCanvas_def)
qed

subsection \<open>The gradient\<close>

lemma last_newCalls_fill:
  assumes "snd d = calls cv @ ks @ [k]"
  shows "last (newCalls cv (Some (onCanvas cv d))) = k"
  using assms by (simp add: newCalls_def onCanvas_def)

lemma drawText_gradient:
  assumes "context2d cv = Some ctx" and "textColorType s = Gradient" and "stopsParse h s"
  shows "gradientOf (last (newCalls cv (fst (drawText h s (Some cv)))))
           = Some (gradientAxis h s 1 (real (width cv) / 2) (real (height cv) / 2))"
proof -
  have "fillPaint h s 1 (real (width cv) / 2) (real (height cv) / 2)
          = Inr (LinearGradient (gradientAxis h s 1 (real (width cv) / 2) (real (height cv) / 2)))"
    using assms by (simp add: fillPaint_def)
  from render_fill [OF this, of ctx] obtain c ks where
      "snd (fst (render h s 1 cv ctx)) =
         calls cv @ ks @ [FillText c (textStr s) (real (width cv) / 2) (real (height cv) / 2)]"
      and "ctx_fillStyle c = LinearGradient (gradientAxis h s 1 (real (width cv) / 2) (real (height cv) / 2))"
    by blast
  then show ?thesis
    using assms(1) by (simp add: drawText_render last_newCalls_fill)
qed

lemma downloadImage_gradient:
  assumes "context2d dc = Some ctx" and "0 < width pv"
      and "textColorType s = Gradient" and "stopsParse h s"
  shows "gradientOf (last (newCalls dc (fst (downloadImage h s (Some dc) (Some pv) now))))
           = Some (gradientAxis h s (real (width dc) / real (width pv))
                     (real (width dc) / 2) (real (height dc) / 2))"
proof -
  let ?k = "real (width dc) / real (width pv)"
  have "fillPaint h s ?k (real (width dc) / 2) (real (height dc) / 2)
          = Inr (LinearGradient (gradientAxis h s ?k (real (width dc) / 2) (real (height dc) / 2)))"
    using assms by (simp add: fillPaint_def)
  from render_fill [OF this, of ctx] obtain c ks where
      "snd (fst (render h s ?k dc ctx)) =
         calls dc @ ks @ [FillText c (textStr s) (real (width dc) / 2) (real (height dc) / 2)]"
      and "ctx_fillStyle c = LinearGradient (gradientAxis h s ?k (real (width dc) / 2) (real (height dc) / 2))"
    by blast
  then show ?thesis
    using assms(1,2) by (simp add: downloadImage_render Let_def last_newCalls_fill)
qed

text \<open>
  C3. In gradient mode, when the fill happens (both stop colours are accepted),
  the gradient that the last call of the render fills with is the one of the
  specification: the axis through the centre of the surface, from the centre minus
  \<open>(W/2 cos \<theta>, H/2 sin \<theta>)\<close> to the centre plus it, with \<open>\<theta>\<close> the angle in radians,
  \<open>W\<close> the text width measured at the scaled font size and \<open>H\<close> the scaled font size;
  the scale is 1 for the preview and the quotient of the canvas widths for the
  export. Its stops are exactly two: the start colour at 0, the end colour at 1.
\<close>

theorem gradient_axis_of_fill:
  assumes "context2d cv = Some ctx" and "context2d dc = Some dctx" and "0 < width pv"
      and "textColorType s = Gradient" and "stopsParse h s"
  shows "gradientOf (last (newCalls cv (fst (drawText h s (Some cv)))))
           = Some (gradientAxis h s 1 (real (width cv) / 2) (real (height cv) / 2))
       \<and> gradientOf (last (newCalls dc (fst (downloadImage h s (Some dc) (Some pv) now))))
           = Some (gradientAxis h s (real (width dc) / real (width pv))
                     (real (width dc) / 2) (real (height dc) / 2))
       \<and> g_stops (gradientAxis h s k ax ay) = [(0, textGradientStart s), (1, textGradientEnd s)]"
  using assms by (simp add: drawText_gradient downloadImage_gradient gradientAxis_def Let_def)

theorem gradient_axis_of_fill_witness:
  "gradientOf (last (newCalls previewCanvas
      (fst (drawText sampleHost (sampleApp\<lparr>textColorType := Gradient\<rparr>) (Some previewCanvas)))))
     = Some \<lparr> g_x0 = 400, g_y0 = 165, g_x1 = 400, g_y1 = 285,
              g_stops = [(0, ''#FF0000''), (1, ''#FF6600'')] \<rparr>
   \<and> gradientOf (last (newCalls exportCanvas
      (fst (downloadImage sampleHost (sampleApp\<lparr>textColorType := Gradient\<rparr>)
              (Some exportCanvas) (Some previewCanvas) 0))))
     = Some \<lparr> g_x0 = 960, g_y0 = 396, g_x1 = 960, g_y1 = 684,
              g_stops = [(0, ''#FF0000''), (1, ''#FF6600'')] \<rparr>"
proof -
  have w: "0 < width previewCanvas" by (simp add: previewCanvas_def)
  have g: "textColorType (sampleApp\<lparr>textColorType := Gradient\<rparr>) = Gradient" by simp
  have p: "stopsParse sampleHost (sampleApp\<lparr>textColorType := Gradient\<rparr>)"
    by (simp add: stopsParse_def sampleHost_def sampleApp_def hexColor_def hexDigit_def)
  from gradient_axis_of_fill [OF previewCanvas_context exportCanvas_context w g p, of 0]
  show ?thesis
    by (simp add: gradientAxis_def sampleApp_def sampleHost_def previewCanvas_def exportCanvas_def)
qed

text \<open>
  C7. At 90 degrees the two endpoints of the gradient axis have the same X
  coordinate (they differ by the font size in Y): the axis is vertical. At 0
  degrees they have the same Y coordinate (they differ by the text width in X):
  the axis is horizontal. Over the reals the equalities are exact.
\<close>

theorem gradient_axis_vertical_horizontal:
  assumes "context2d cv = Some ctx" and "textColorType s = Gradient" and "stopsParse h s"
  shows "map_option (\<lambda>g. (g_x1 g - g_x0 g, g_y1 g - g_y0 g))
           (gradientOf (last (newCalls cv (fst (drawText h (s\<lparr>textGradientAngle := 90\<rparr>) (Some cv))))))
           = Some (0, fontSize s)
       \<and> map_option (\<lambda>g. (g_x1 g - g_x0 g, g_y1 g - g_y0 g))
           (gradientOf (last (newCalls cv (fst (drawText h (s\<lparr>textGradientAngle := 0\<rparr>) (Some cv))))))
           = Some (measureText h \<lparr>sizePx = fontSize s, families = fontFamily s\<rparr> (textStr s), 0)"
proof -
  have v: "gradientOf (last (newCalls cv (fst (drawText h (s\<lparr>textGradientAngle := 90\<rparr>) (Some cv)))))
      = Some (gradientAxis h (s\<lparr>textGradientAngle := 90\<rparr>) 1 (real (width cv) / 2) (real (height cv) / 2))"
    using assms by (intro drawText_gradient) (simp_all add: stopsParse_def)
  have z: "gradientOf (last (newCalls cv (fst (drawText h (s\<lparr>textGradientAngle := 0\<rparr>) (Some cv)))))
      = Some (gradientAxis h (s\<lparr>textGradientAngle := 0\<rparr>) 1 (real (width cv) / 2) (real (height cv) / 2))"
    using assms by (intro drawText_gradient) (simp_all add: stopsParse_def)
  have "(90::real) * pi / 180 = pi / 2" by simp
  then show ?thesis
    by (simp add: v z gradientAxis_def Let_def)
qed

theorem gradient_axis_vertical_horizontal_witness:
  "map_option (\<lambda>g. (g_x1 g - g_x0 g, g_y1 g - g_y0 g))
     (gradientOf (last (newCalls previewCanvas
        (fst (drawText sampleHost (sampleApp\<lparr>textColorType := Gradient, textGradientAngle := 90\<rparr>)
                (Some previewCanvas))))))
     = Some (0, 120)
   \<and> map_option (\<lambda>g. (g_x1 g - g_x0 g, g_y1 g - g_y0 g))
     (gradientOf (last (newCalls previewCanvas
        (fst (drawText sampleHost (sampleApp\<lparr>textColorType := Gradient, textGradientAngle := 0\<rparr>)
                (Some previewCanvas))))))
     = Some (300, 0)"
proof -
  have g: "textColorType (sampleApp\<lparr>textColorType := Gradient\<rparr>) = Gradient" by simp
  have p: "stopsParse sampleHost (sampleApp\<lparr>textColorType := Gradient\<rparr>)"
    by (simp add: stopsParse_def sampleHost_def sampleApp_def hexColor_def hexDigit_def)
  from gradient_axis_vertical_horizontal [OF previewCanvas_context g p]
  show ?thesis
    by (simp add: sampleApp_def sampleHost_def)
qed

subsection \<open>The shadow pass\<close>






subsection \<open>Degenerate inputs\<close>

lemma drawText_zero_inner:
  "drawText h (s\<lparr>border1Width := 0\<rparr>) tc = drawTextNoInner h s tc"
  by (cases tc; cases "context2d (the tc)")
     (simp_all add: drawText_def drawTextNoInner_def Let_def split del: if_split
        cong: if_cong sum.case_cong)

lemma drawText_returns:
  "snd (drawText h s tc) =
     (if surfaceValid tc then
        (if textColorType s = Gradient then (if stopsParse h s then Returned else Raised SyntaxError)
         else Returned)
      else Returned)"
proof (cases tc)
  case None
  then show ?thesis by (simp add: drawText_def surfaceValid_def)
next
  case (Some cv)
  show ?thesis
  proof (cases "context2d cv")
    case None
    with Some show ?thesis by (simp add: drawText_def surfaceValid_def)
  next
    case (Some ctx)
    with \<open>tc = Some cv\<close> show ?thesis
      by (simp add: drawText_outcome surfaceValid_def)
  qed
qed

lemma downloadImage_ends:
  "snd (snd (downloadImage h s dref cref now)) =
     (case dref of
        None \<Rightarrow> Returned
      | Some dc \<Rightarrow>
         (case context2d dc of
            None \<Rightarrow> Returned
          | Some ctx \<Rightarrow>
             (case cref of
                None \<Rightarrow> Returned
              | Some pv \<Rightarrow>
                 if width pv = 0 then NotFinite
                 else if textColorType s = Gradient
                      then (if stopsParse h s then Returned else Raised SyntaxError)
                      else Returned)))"
proof (cases dref)
  case None
  then show ?thesis by (simp add: downloadImage_def)
next
  case dc: (Some dc)
  show ?thesis
  proof (cases "context2d dc")
    case None
    with dc show ?thesis by (simp add: downloadImage_def)
  next
    case ctx: (Some ctx)
    show ?thesis
    proof (cases cref)
      case None
      with dc ctx show ?thesis by (simp add: downloadImage_def)
    next
      case pv: (Some pv)
      show ?thesis
      proof (cases "width pv = 0")
        case True
        with dc ctx pv show ?thesis by (simp add: downloadImage_def quotient_def)
      next
        case False
        then have "0 < width pv" by simp
        from downloadImage_outcome [OF ctx this, of h s now] dc ctx pv False
        show ?thesis by simp
      qed
    qed
  qed
qed

text \<open>
  C8. With the width of the inner outline 0, \<^verbatim>\<open>drawText\<close> gives what the render
  without the inner stroke pass gives: the same canvas, call for call, and the
  same ending. Empty text and outlines of width 0 raise no error: how a render
  ends, preview or export, does not depend on the text or on the outline widths,
  so the degenerate values end as any other text and widths do; a preview render
  with a solid fill returns whatever the text and the widths are; and the only
  ending of a preview render other than returning is the \<^verbatim>\<open>SyntaxError\<close> of a
  gradient stop colour that the canvas refuses, which is the matter of C1.
\<close>

theorem zero_inner_width_omits_pass:
  "drawText h (s\<lparr>border1Width := 0\<rparr>) tc = drawTextNoInner h s tc
   \<and> snd (drawText h (s\<lparr>textStr := t, border1Width := w1, border2Width := w2\<rparr>) tc) = snd (drawText h s tc)
   \<and> snd (drawText h (s\<lparr>textColorType := Solid\<rparr>) tc) = Returned
   \<and> snd (drawText h s tc) =
       (if surfaceValid tc then
          (if textColorType s = Gradient then (if stopsParse h s then Returned else Raised SyntaxError)
           else Returned)
        else Returned)
   \<and> snd (snd (downloadImage h (s\<lparr>textStr := t, border1Width := w1, border2Width := w2\<rparr>) dref cref now))
       = snd (snd (downloadImage h s dref cref now))
   \<and> snd (drawText h (s\<lparr>textStr := [], border1Width := 0, border2Width := 0,
                          textColorType := Solid\<rparr>) tc) = Returned"
proof (intro conjI)
  show "drawText h (s\<lparr>border1Width := 0\<rparr>) tc = drawTextNoInner h s tc"
    by (rule drawText_zero_inner)
next
  have "stopsParse h (s\<lparr>textStr := t, border1Width := w1, border2Width := w2\<rparr>) = stopsParse h s"
    by (simp add: stopsParse_def)
  then show "snd (drawText h (s\<lparr>textStr := t, border1Width := w1, border2Width := w2\<rparr>) tc)
               = snd (drawText h s tc)"
    by (simp add: drawText_returns)
next
  show "snd (drawText h (s\<lparr>textColorType := Solid\<rparr>) tc) = Returned"
    by (simp add: drawText_returns)
next
  show "snd (drawText h s tc) =
       (if surfaceValid tc then
          (if textColorType s = Gradient then (if stopsParse h s then Returned else Raised SyntaxError)
           else Returned)
        else Returned)"
    by (rule drawText_returns)
next
  have "stopsParse h (s\<lparr>textStr := t, border1Width := w1, border2Width := w2\<rparr>) = stopsParse h s"
    by (simp add: stopsParse_def)
  then show "snd (snd (downloadImage h (s\<lparr>textStr := t, border1Width := w1, border2Width := w2\<rparr>)
                          dref cref now))
               = snd (snd (downloadImage h s dref cref now))"
    by (simp add: downloadImage_ends split: option.split)
next
  show "snd (drawText h (s\<lparr>textStr := [], border1Width := 0, border2Width := 0,
                          textColorType := Solid\<rparr>) tc) = Returned"
    by (simp add: drawText_returns)
qed

subsection \<open>Export without a surface\<close>

text \<open>
  C9. When the export has no valid export surface (no canvas behind the reference,
  or a canvas that gives no 2D context) or no preview canvas, \<^verbatim>\<open>downloadImage\<close>
  returns with the export canvas as it was, no call added to it, no anchor clicked
  (no PNG), and nothing raised.
\<close>

theorem export_without_surface:
  assumes "\<not> surfaceValid downloadCanvasRef \<or> canvasRef = None"
  shows "downloadImage h s downloadCanvasRef canvasRef now = (downloadCanvasRef, None, Returned)"
  using assms
  by (auto simp add: downloadImage_def surfaceValid_def split: option.splits)

theorem export_without_surface_witness:
  "downloadImage sampleHost sampleApp None (Some previewCanvas) 0 = (None, None, Returned)
   \<and> downloadImage sampleHost sampleApp (Some (exportCanvas\<lparr>context2d := None\<rparr>)) (Some previewCanvas) 0
       = (Some (exportCanvas\<lparr>context2d := None\<rparr>), None, Returned)
   \<and> downloadImage sampleHost sampleApp (Some exportCanvas) None 0 = (Some exportCanvas, None, Returned)"
proof -
  have a: "\<not> surfaceValid None \<or> Some previewCanvas = None"
    by (simp add: surfaceValid_def)
  have b: "\<not> surfaceValid (Some (exportCanvas\<lparr>context2d := None\<rparr>)) \<or> Some previewCanvas = None"
    by (simp add: surfaceValid_def)
  have c: "\<not> surfaceValid (Some exportCanvas) \<or> (None :: canvas option) = None"
    by simp
  from export_without_surface [OF a] export_without_surface [OF b] export_without_surface [OF c]
  show ?thesis by simp
qed

end
